theory Spec2Isabelle
  imports Main
begin

section \<open>Rows, SQL values and errors\<close>

text \<open>
  The program is the set of SQL migrations under \<^verbatim>\<open>supabase/migrations\<close>: table definitions
  with their constraints, row-level-security policies and PL/pgSQL trigger functions.
  A uuid is a value compared only for equality, a timestamptz a number of seconds; a nullable
  column is an \<open>option\<close> (\<open>None\<close> is NULL), a NOT NULL column that every modelled statement
  fills is a plain value.
\<close>

type_synonym uuid = nat
type_synonym timestamptz = int

text \<open>SQL's three-valued logic: a WHERE clause, a policy expression and a PL/pgSQL IF keep a
  row (take the branch) only when the expression is true, not when it is false or NULL.\<close>

definition sql_eq :: "'a option \<Rightarrow> 'a option \<Rightarrow> bool option" where
  "sql_eq a b = (case a of None \<Rightarrow> None | Some x \<Rightarrow> (case b of None \<Rightarrow> None | Some y \<Rightarrow> Some (x = y)))"

definition sql_ne :: "'a option \<Rightarrow> 'a option \<Rightarrow> bool option" where
  "sql_ne a b = (case a of None \<Rightarrow> None | Some x \<Rightarrow> (case b of None \<Rightarrow> None | Some y \<Rightarrow> Some (x \<noteq> y)))"

definition is_distinct_from :: "'a option \<Rightarrow> 'a option \<Rightarrow> bool option" where
  "is_distinct_from a b = Some (a \<noteq> b)"

fun sql_and :: "bool option \<Rightarrow> bool option \<Rightarrow> bool option" where
  "sql_and (Some False) b = Some False"
| "sql_and (Some True) b = b"
| "sql_and None (Some False) = Some False"
| "sql_and None b = None"

fun sql_or :: "bool option \<Rightarrow> bool option \<Rightarrow> bool option" where
  "sql_or (Some True) b = Some True"
| "sql_or (Some False) b = b"
| "sql_or None (Some True) = Some True"
| "sql_or None b = None"

definition is_true :: "bool option \<Rightarrow> bool" where
  "is_true b = (b = Some True)"

text \<open>\<open>a || b\<close>: the concatenation is NULL when an operand is.\<close>

definition sql_concat :: "string option \<Rightarrow> string option \<Rightarrow> string option" where
  "sql_concat a b = (case a of None \<Rightarrow> None | Some x \<Rightarrow> (case b of None \<Rightarrow> None | Some y \<Rightarrow> Some (x @ y)))"

text \<open>The bytes of the UTF-8 letters the migrations' string literals use.\<close>

definition o_acute :: string where
  "o_acute = [CHR 0xC3, CHR 0xB3]"

definition a_acute :: string where
  "a_acute = [CHR 0xC3, CHR 0xA1]"

definition e_acute :: string where
  "e_acute = [CHR 0xC3, CHR 0xA9]"

definition u_acute :: string where
  "u_acute = [CHR 0xC3, CHR 0xBA]"

text \<open>What a statement raises. Any error aborts the statement that caused it, and with it the
  statement whose trigger ran it: no trigger function of the migrations has an EXCEPTION block.
  \<open>Infinite_recursion\<close> is PostgreSQL's error 42P17, "infinite recursion detected in policy for
  relation ...".\<close>

datatype error =
    Rls_violation string
  | Not_null_violation string string
  | Check_violation string
  | Unique_violation string
  | Foreign_key_violation string
  | Undefined_field string
  | Infinite_recursion string

text \<open>Who runs a statement: an authenticated identity, to which the policies apply (each of
  them is granted TO authenticated), or a role that row security does not apply to, such as
  the owner of the tables, which runs the statements of the migrations themselves
  (\<open>UPDATE profiles SET role = 'rrhh' ...\<close>). The statements of a trigger function run as the
  role of the statement that fired the trigger: no function is SECURITY DEFINER.\<close>

datatype actor = Authenticated uuid | Owner

section \<open>Tables\<close>

text \<open>
  One record per table, with the columns that the policies, constraints and trigger functions
  modelled below read or write. The other columns (descriptions, dates, file references,
  \<open>created_at\<close>, the generated \<open>id\<close> of a message, a notification or an email notification) are
  left out.
\<close>

text \<open>
  Modelled from the spec: the CREATE TABLE of \<open>profiles\<close> is not among the migrations. A profile
  is keyed by the id of its identity (\<open>profiles.id = auth.uid()\<close>) and carries the role, which
  the policies compare with \<open>'rrhh'\<close> and the client types as \<open>'candidato' | 'rrhh'\<close>, and the
  names \<open>nombre\<close> and \<open>apellidos\<close> that \<open>create_message_notification\<close> reads.
\<close>

record profile =
  p_id :: uuid
  p_role :: string
  p_nombre :: string
  p_apellidos :: string

record job_offer =
  jo_id :: uuid
  jo_titulo :: string
  jo_estado :: "string option"
  jo_created_by :: "uuid option"

record application =
  a_id :: uuid
  a_job_offer_id :: "uuid option"
  a_user_id :: "uuid option"
  a_estado :: "string option"

record message =
  m_sender_id :: uuid
  m_receiver_id :: uuid
  m_content :: string
  m_read :: "bool option"
  m_application_id :: "uuid option"

record notification =
  n_user_id :: "uuid option"
  n_type :: string
  n_title :: string
  n_content :: "string option"
  n_read :: "bool option"
  n_related_id :: "uuid option"

record email_notification =
  e_type :: string
  e_recipient_id :: "uuid option"
  e_subject :: string
  e_content :: string
  e_status :: string

record document =
  d_id :: uuid
  d_title :: string
  d_type :: string
  d_status :: string
  d_expiry_date :: "timestamptz option"
  d_user_id :: "uuid option"

record selection_process =
  sp_id :: uuid
  sp_job_offer_id :: "uuid option"
  sp_candidate_id :: "uuid option"
  sp_status :: string
  sp_required_assessments :: "uuid list option"
  sp_updated_at :: "timestamptz option"

record candidate_evaluation =
  ce_id :: uuid
  ce_stage_id :: "uuid option"
  ce_score :: "int option"
  ce_status :: string
  ce_template_id :: "uuid option"
  ce_updated_at :: "timestamptz option"

record evaluation_template =
  et_id :: uuid
  et_name :: string

record evaluation_criterion =
  ec_id :: uuid
  ec_template_id :: "uuid option"
  ec_name :: string

record db =
  profiles :: "profile list"
  job_offers :: "job_offer list"
  applications :: "application list"
  messages :: "message list"
  notifications :: "notification list"
  email_notifications :: "email_notification list"
  documents :: "document list"
  selection_processes :: "selection_process list"
  candidate_evaluations :: "candidate_evaluation list"
  evaluation_templates :: "evaluation_template list"
  evaluation_criteria :: "evaluation_criterion list"

section \<open>Row-level security\<close>

text \<open>
  Every policy of the migrations is permissive. A row passes an operation when at least one
  policy for that operation (or FOR ALL) is true on it. USING is evaluated on the stored row,
  WITH CHECK on the proposed row; a policy FOR ALL or FOR UPDATE without WITH CHECK uses its
  USING expression for both. Inside an expression every column reference, qualified by the
  table name or not, reads the one row the expression is evaluated on.

  An UPDATE or DELETE with a WHERE clause also needs a select policy on the row. On every
  table below, the expression that admits the write admits the select as well (it belongs to a
  FOR ALL policy, or it implies the select policy of the table), so the select policies add
  no condition to a write.
\<close>

subsection \<open>profiles, and the subquery on profiles that the rrhh policies share\<close>

text \<open>
  The migration "Enable RLS and add missing policies" enables row security on \<open>profiles\<close>, with
  the select policies "Users can view their own profile" and "RRHH can view all profiles". No
  later migration drops or alters them. The second one reads \<open>profiles\<close> itself:
  \<open>USING (EXISTS (SELECT 1 FROM profiles WHERE profiles.id = auth.uid() AND profiles.role =
  'rrhh'))\<close>.

  Before a query of an authenticated identity runs, the rewriter adds to every relation the
  query reads the policies of that relation, and then expands the subqueries of the policies
  it added, keeping the list of the relations whose policies it is expanding. When it reaches
  a relation that is already on that list it raises 42P17. \<open>expand_profiles_policies active\<close>
  is that step for a (sub)query that reads \<open>profiles\<close>: the policies of \<open>profiles\<close> hold a
  subquery that reads \<open>profiles\<close> again.
\<close>

function expand_profiles_policies :: "string list \<Rightarrow> error + unit" where
  "expand_profiles_policies active =
     (if ''profiles'' \<in> set active then Inl (Infinite_recursion ''profiles'')
      else expand_profiles_policies (''profiles'' # active))"
  by pat_completeness auto
termination
  by (relation "measure (\<lambda>active. if ''profiles'' \<in> set active then 0 else 1)") auto

text \<open>\<open>EXISTS (SELECT 1 FROM profiles WHERE profiles.id = auth.uid() AND profiles.role = 'rrhh')\<close>
  inside a policy of the relation \<open>rel\<close>. The expression reads no column of \<open>rel\<close>.\<close>

definition exists_rrhh_profile :: "string \<Rightarrow> uuid \<Rightarrow> db \<Rightarrow> error + bool option" where
  "exists_rrhh_profile rel uid s =
     (case expand_profiles_policies [rel] of
        Inl err \<Rightarrow> Inl err
      | Inr u \<Rightarrow> Inr (Some (list_ex (\<lambda>p. p_id p = uid \<and> p_role p = ''rrhh'') (profiles s))))"

definition users_can_view_their_own_profile :: "uuid \<Rightarrow> profile \<Rightarrow> bool option" where
  "users_can_view_their_own_profile uid p = sql_eq (Some (p_id p)) (Some uid)"

definition rrhh_can_view_all_profiles :: "uuid \<Rightarrow> db \<Rightarrow> error + bool option" where
  "rrhh_can_view_all_profiles uid s = exists_rrhh_profile ''profiles'' uid s"

text \<open>The rows of \<open>profiles\<close> that a query of the actor reads.\<close>

definition select_profiles :: "actor \<Rightarrow> db \<Rightarrow> error + profile list" where
  "select_profiles act s =
     (case act of
        Owner \<Rightarrow> Inr (profiles s)
      | Authenticated uid \<Rightarrow>
          (case rrhh_can_view_all_profiles uid s of
             Inl err \<Rightarrow> Inl err
           | Inr r \<Rightarrow>
               Inr (filter (\<lambda>p. is_true (users_can_view_their_own_profile uid p) \<or> is_true r) (profiles s))))"

text \<open>What the table holds, whoever asks: the role of an identity, and whether a uuid is the id
  of a profile (foreign keys are checked without row security).\<close>

definition has_role :: "db \<Rightarrow> uuid \<Rightarrow> string \<Rightarrow> bool" where
  "has_role s uid r = list_ex (\<lambda>p. p_id p = uid \<and> p_role p = r) (profiles s)"

definition is_profile :: "db \<Rightarrow> uuid \<Rightarrow> bool" where
  "is_profile s uid = list_ex (\<lambda>p. p_id p = uid) (profiles s)"

text \<open>The value of a policy expression that reads no column of the row, for an actor: not
  evaluated when row security does not apply.\<close>

definition policy_admits :: "actor \<Rightarrow> (uuid \<Rightarrow> error + bool option) \<Rightarrow> error + bool" where
  "policy_admits act pol =
     (case act of
        Owner \<Rightarrow> Inr True
      | Authenticated uid \<Rightarrow> (case pol uid of Inl err \<Rightarrow> Inl err | Inr r \<Rightarrow> Inr (is_true r)))"

text \<open>The same for an expression on the columns of a row, which cannot fail.\<close>

definition row_policy_admits :: "actor \<Rightarrow> (uuid \<Rightarrow> bool) \<Rightarrow> bool" where
  "row_policy_admits act pol = (case act of Owner \<Rightarrow> True | Authenticated uid \<Rightarrow> pol uid)"

text \<open>The rows a statement hands back: none when it raised an error.\<close>

definition returned_rows :: "error + 'a list \<Rightarrow> 'a list" where
  "returned_rows r = (case r of Inl err \<Rightarrow> [] | Inr rows \<Rightarrow> rows)"

subsection \<open>job_offers\<close>

text \<open>"RRHH can manage job offers" (FOR ALL) and "Everyone can view active job offers"
  (FOR SELECT).\<close>

definition rrhh_can_manage_job_offers :: "uuid \<Rightarrow> db \<Rightarrow> error + bool option" where
  "rrhh_can_manage_job_offers uid s = exists_rrhh_profile ''job_offers'' uid s"

definition everyone_can_view_active_job_offers :: "uuid \<Rightarrow> db \<Rightarrow> job_offer \<Rightarrow> bool option" where
  "everyone_can_view_active_job_offers uid s o' = sql_eq (jo_estado o') (Some ''abierta'')"

text \<open>\<open>SELECT * FROM job_offers\<close>.\<close>

definition select_job_offers :: "actor \<Rightarrow> db \<Rightarrow> error + job_offer list" where
  "select_job_offers act s =
     (case act of
        Owner \<Rightarrow> Inr (job_offers s)
      | Authenticated uid \<Rightarrow>
          (case rrhh_can_manage_job_offers uid s of
             Inl err \<Rightarrow> Inl err
           | Inr r \<Rightarrow>
               Inr (filter (\<lambda>o'. is_true r \<or> is_true (everyone_can_view_active_job_offers uid s o'))
                      (job_offers s))))"

subsection \<open>messages\<close>

text \<open>"Users can read their messages" (FOR SELECT), "Users can create messages" (FOR INSERT)
  and "Users can mark messages as read" (FOR UPDATE, USING only). In the last one \<open>read\<close> and
  \<open>messages.read\<close> are the same column of the same row.\<close>

definition users_can_read_their_messages :: "uuid \<Rightarrow> message \<Rightarrow> bool option" where
  "users_can_read_their_messages uid m =
     sql_or (sql_eq (Some uid) (Some (m_sender_id m))) (sql_eq (Some uid) (Some (m_receiver_id m)))"

definition users_can_create_messages :: "uuid \<Rightarrow> message \<Rightarrow> bool option" where
  "users_can_create_messages uid m = sql_eq (Some uid) (Some (m_sender_id m))"

definition users_can_mark_messages_as_read :: "uuid \<Rightarrow> message \<Rightarrow> bool option" where
  "users_can_mark_messages_as_read uid m =
     sql_and (sql_eq (Some uid) (Some (m_receiver_id m)))
       (sql_and (sql_eq (m_read m) (Some True)) (is_distinct_from (m_read m) (m_read m)))"

definition messages_select_policy :: "uuid \<Rightarrow> message \<Rightarrow> bool" where
  "messages_select_policy uid m = is_true (users_can_read_their_messages uid m)"

definition messages_insert_policy :: "uuid \<Rightarrow> message \<Rightarrow> bool" where
  "messages_insert_policy uid m = is_true (users_can_create_messages uid m)"

text \<open>An update of the stored row \<open>old\<close> to \<open>new\<close> goes through when \<open>old\<close> passes USING and
  \<open>new\<close> passes WITH CHECK (here the USING expression again).\<close>

definition messages_update_permitted :: "uuid \<Rightarrow> message \<Rightarrow> message \<Rightarrow> bool" where
  "messages_update_permitted uid old new =
     (is_true (users_can_mark_messages_as_read uid old) \<and> is_true (users_can_mark_messages_as_read uid new))"

subsection \<open>notifications\<close>

text \<open>"Users can read their notifications" (FOR SELECT), "Users can mark their notifications as
  read" (FOR UPDATE, USING and WITH CHECK) and "Allow trigger-based notification creation"
  (FOR INSERT).\<close>

definition users_can_read_their_notifications :: "uuid \<Rightarrow> notification \<Rightarrow> bool option" where
  "users_can_read_their_notifications uid n = sql_eq (n_user_id n) (Some uid)"

definition mark_notifications_as_read_using :: "uuid \<Rightarrow> notification \<Rightarrow> bool option" where
  "mark_notifications_as_read_using uid n = sql_eq (n_user_id n) (Some uid)"

definition mark_notifications_as_read_check :: "uuid \<Rightarrow> notification \<Rightarrow> bool option" where
  "mark_notifications_as_read_check uid n =
     sql_and (sql_eq (n_user_id n) (Some uid))
       (sql_and (sql_eq (n_read n) (Some True)) (is_distinct_from (n_read n) (n_read n)))"

definition allow_trigger_based_notification_creation :: "uuid \<Rightarrow> db \<Rightarrow> error + bool option" where
  "allow_trigger_based_notification_creation uid s = exists_rrhh_profile ''notifications'' uid s"

definition notifications_select_policy :: "uuid \<Rightarrow> notification \<Rightarrow> bool" where
  "notifications_select_policy uid n = is_true (users_can_read_their_notifications uid n)"

definition notifications_update_permitted :: "uuid \<Rightarrow> notification \<Rightarrow> notification \<Rightarrow> bool" where
  "notifications_update_permitted uid old new =
     (is_true (mark_notifications_as_read_using uid old) \<and> is_true (mark_notifications_as_read_check uid new))"

subsection \<open>email_notifications\<close>

text \<open>"RRHH can view all email notifications" names no operation, so it is FOR ALL and its USING
  expression is the check of an insert; "Users can view their own email notifications" is
  FOR SELECT.\<close>

definition rrhh_can_view_all_email_notifications :: "uuid \<Rightarrow> db \<Rightarrow> error + bool option" where
  "rrhh_can_view_all_email_notifications uid s = exists_rrhh_profile ''email_notifications'' uid s"

definition users_can_view_their_own_email_notifications :: "uuid \<Rightarrow> email_notification \<Rightarrow> bool option" where
  "users_can_view_their_own_email_notifications uid e = sql_eq (e_recipient_id e) (Some uid)"

subsection \<open>applications\<close>

text \<open>"RRHH can view all applications" (FOR SELECT), "RRHH can manage applications" (FOR ALL,
  USING only), "Users can view their own applications" (FOR SELECT) and "Users can create
  applications" (FOR INSERT).\<close>

definition rrhh_can_manage_applications :: "uuid \<Rightarrow> db \<Rightarrow> error + bool option" where
  "rrhh_can_manage_applications uid s = exists_rrhh_profile ''applications'' uid s"

definition users_can_create_applications :: "uuid \<Rightarrow> application \<Rightarrow> bool option" where
  "users_can_create_applications uid a = sql_eq (a_user_id a) (Some uid)"

subsection \<open>documents, selection_processes, candidate_evaluations, evaluation_templates\<close>

text \<open>"Users can manage their own documents" is the one policy of \<open>documents\<close> that covers an
  insert. On each of the other three tables the one policy that covers a write is the FOR ALL
  policy of the rrhh role ("RRHH can manage selection processes", "RRHH can manage
  evaluations", "RRHH can manage evaluation templates"), with the same expression as USING and
  as WITH CHECK.\<close>

definition users_can_manage_their_own_documents :: "uuid \<Rightarrow> document \<Rightarrow> bool option" where
  "users_can_manage_their_own_documents uid d = sql_eq (d_user_id d) (Some uid)"

definition documents_insert_policy :: "uuid \<Rightarrow> document \<Rightarrow> bool" where
  "documents_insert_policy uid d = is_true (users_can_manage_their_own_documents uid d)"

definition rrhh_can_manage_selection_processes :: "uuid \<Rightarrow> db \<Rightarrow> error + bool option" where
  "rrhh_can_manage_selection_processes uid s = exists_rrhh_profile ''selection_processes'' uid s"

definition rrhh_can_manage_evaluations :: "uuid \<Rightarrow> db \<Rightarrow> error + bool option" where
  "rrhh_can_manage_evaluations uid s = exists_rrhh_profile ''candidate_evaluations'' uid s"

definition rrhh_can_manage_evaluation_templates :: "uuid \<Rightarrow> db \<Rightarrow> error + bool option" where
  "rrhh_can_manage_evaluation_templates uid s = exists_rrhh_profile ''evaluation_templates'' uid s"

section \<open>Statements\<close>

text \<open>
  A statement takes the actor and the database and returns the new database or the error it
  raised; on an error nothing of the statement is kept. The policies of the target table are
  expanded before any row is read, so an error of that step does not depend on the rows. An
  INSERT then checks, in this order, the WITH CHECK of the insert policies, the NOT NULL and
  CHECK constraints and the primary key, stores the row, checks its foreign keys and runs the
  AFTER ROW triggers of the table.
\<close>

subsection \<open>INSERT INTO notifications, INSERT INTO email_notifications\<close>

definition notifications_type_check :: "notification \<Rightarrow> bool" where
  "notifications_type_check n = (n_type n \<in> set [''message'', ''application_status'', ''new_job_offer''])"

definition insert_notification :: "actor \<Rightarrow> notification \<Rightarrow> db \<Rightarrow> error + db" where
  "insert_notification act n s =
     (case policy_admits act (\<lambda>uid. allow_trigger_based_notification_creation uid s) of
        Inl err \<Rightarrow> Inl err
      | Inr ok \<Rightarrow>
          if \<not> ok then Inl (Rls_violation ''notifications'')
          else case n_user_id n of
            None \<Rightarrow> Inl (Not_null_violation ''notifications'' ''user_id'')
          | Some u \<Rightarrow>
              if n_content n = None then Inl (Not_null_violation ''notifications'' ''content'')
              else if \<not> notifications_type_check n then Inl (Check_violation ''notifications_type_check'')
              else if \<not> is_profile s u then Inl (Foreign_key_violation ''notifications_user_id_fkey'')
              else Inr (s\<lparr>notifications := notifications s @ [n]\<rparr>))"

definition email_notifications_type_check :: "email_notification \<Rightarrow> bool" where
  "email_notifications_type_check e =
     (e_type e \<in> set [''process_update'', ''assessment_invitation'', ''interview_scheduled'', ''evaluation_complete''])"

definition email_notifications_status_check :: "email_notification \<Rightarrow> bool" where
  "email_notifications_status_check e = (e_status e \<in> set [''pending'', ''sent'', ''failed''])"

definition insert_email_notification :: "actor \<Rightarrow> email_notification \<Rightarrow> db \<Rightarrow> error + db" where
  "insert_email_notification act e s =
     (case policy_admits act (\<lambda>uid. rrhh_can_view_all_email_notifications uid s) of
        Inl err \<Rightarrow> Inl err
      | Inr ok \<Rightarrow>
          if \<not> ok then Inl (Rls_violation ''email_notifications'')
          else if \<not> email_notifications_status_check e
            then Inl (Check_violation ''email_notifications_status_check'')
          else if \<not> email_notifications_type_check e
            then Inl (Check_violation ''email_notifications_type_check'')
          else case e_recipient_id e of
            None \<Rightarrow> Inr (s\<lparr>email_notifications := email_notifications s @ [e]\<rparr>)
          | Some u \<Rightarrow>
              if \<not> is_profile s u then Inl (Foreign_key_violation ''email_notifications_recipient_id_fkey'')
              else Inr (s\<lparr>email_notifications := email_notifications s @ [e]\<rparr>))"

subsection \<open>INSERT INTO messages and message_notification_trigger\<close>

text \<open>\<open>create_message_notification\<close>: the content is a scalar subquery that reads the sender's
  row of \<open>profiles\<close> as the actor, NULL when it finds no row.\<close>

definition sender_names :: "actor \<Rightarrow> uuid \<Rightarrow> db \<Rightarrow> error + string option" where
  "sender_names act sender s =
     (case select_profiles act s of
        Inl err \<Rightarrow> Inl err
      | Inr ps \<Rightarrow>
          Inr (case find (\<lambda>p. p_id p = sender) ps of
                 None \<Rightarrow> None
               | Some p \<Rightarrow> Some (''Mensaje de '' @ p_nombre p @ '' '' @ p_apellidos p)))"

definition create_message_notification :: "actor \<Rightarrow> message \<Rightarrow> db \<Rightarrow> error + db" where
  "create_message_notification act new s =
     (case sender_names act (m_sender_id new) s of
        Inl err \<Rightarrow> Inl err
      | Inr c \<Rightarrow>
          insert_notification act
            \<lparr>n_user_id = Some (m_receiver_id new),
             n_type = ''message'',
             n_title = ''Nuevo mensaje'',
             n_content = c,
             n_read = Some False,
             n_related_id = m_application_id new\<rparr> s)"

definition insert_message :: "actor \<Rightarrow> message \<Rightarrow> db \<Rightarrow> error + db" where
  "insert_message act m s =
     (if \<not> row_policy_admits act (\<lambda>uid. messages_insert_policy uid m) then Inl (Rls_violation ''messages'')
      else if \<not> is_profile s (m_sender_id m) then Inl (Foreign_key_violation ''messages_sender_id_fkey'')
      else if \<not> is_profile s (m_receiver_id m) then Inl (Foreign_key_violation ''messages_receiver_id_fkey'')
      else if (case m_application_id m of None \<Rightarrow> False | Some a \<Rightarrow> \<not> list_ex (\<lambda>r. a_id r = a) (applications s))
        then Inl (Foreign_key_violation ''messages_application_id_fkey'')
      else create_message_notification act m (s\<lparr>messages := messages s @ [m]\<rparr>))"

subsection \<open>applications: INSERT, UPDATE of estado and application_notification_trigger\<close>

definition applications_estado_check :: "application \<Rightarrow> bool" where
  "applications_estado_check a =
     (case a_estado a of None \<Rightarrow> True | Some v \<Rightarrow> v \<in> set [''pendiente'', ''aceptada'', ''rechazada''])"

text \<open>The insert policies are "RRHH can manage applications" and "Users can create
  applications". No trigger of the migrations fires on an insert into \<open>applications\<close>, and
  nothing in the statement reads the referenced job offer beyond the foreign key's existence
  check.\<close>

definition insert_application :: "actor \<Rightarrow> application \<Rightarrow> db \<Rightarrow> error + db" where
  "insert_application act a s =
     (case policy_admits act (\<lambda>uid. rrhh_can_manage_applications uid s) of
        Inl err \<Rightarrow> Inl err
      | Inr rrhh \<Rightarrow>
          if \<not> (rrhh \<or> row_policy_admits act (\<lambda>uid. is_true (users_can_create_applications uid a)))
            then Inl (Rls_violation ''applications'')
          else if \<not> applications_estado_check a then Inl (Check_violation ''applications_estado_check'')
          else if list_ex (\<lambda>r. a_id r = a_id a) (applications s) then Inl (Unique_violation ''applications_pkey'')
          else if (case a_job_offer_id a of None \<Rightarrow> False | Some j \<Rightarrow> \<not> list_ex (\<lambda>r. jo_id r = j) (job_offers s))
            then Inl (Foreign_key_violation ''applications_job_offer_id_fkey'')
          else if (case a_user_id a of None \<Rightarrow> False | Some u \<Rightarrow> \<not> is_profile s u)
            then Inl (Foreign_key_violation ''applications_user_id_fkey'')
          else Inr (s\<lparr>applications := applications s @ [a]\<rparr>))"

definition create_application_notification :: "actor \<Rightarrow> application \<Rightarrow> application \<Rightarrow> db \<Rightarrow> error + db" where
  "create_application_notification act old new s =
     (if is_true (sql_ne (a_estado new) (a_estado old)) then
        insert_notification act
          \<lparr>n_user_id = a_user_id new,
           n_type = ''application_status'',
           n_title = ''Estado de postulaci'' @ o_acute @ ''n actualizado'',
           n_content = sql_concat (Some (''Tu postulaci'' @ o_acute @ ''n ha sido '')) (a_estado new),
           n_read = Some False,
           n_related_id = a_job_offer_id new\<rparr> s
      else Inr s)"

text \<open>\<open>UPDATE applications SET estado = v WHERE id = aid\<close>; the one update policy is "RRHH can
  manage applications". A row that fails USING is not seen by the statement, which then
  updates nothing and raises nothing.\<close>

definition update_application_estado :: "actor \<Rightarrow> uuid \<Rightarrow> string option \<Rightarrow> db \<Rightarrow> error + db" where
  "update_application_estado act aid v s =
     (case policy_admits act (\<lambda>uid. rrhh_can_manage_applications uid s) of
        Inl err \<Rightarrow> Inl err
      | Inr ok \<Rightarrow>
          (case find (\<lambda>a. a_id a = aid \<and> ok) (applications s) of
             None \<Rightarrow> Inr s
           | Some old \<Rightarrow>
               let new = old\<lparr>a_estado := v\<rparr> in
               if \<not> ok then Inl (Rls_violation ''applications'')
               else if \<not> applications_estado_check new then Inl (Check_violation ''applications_estado_check'')
               else create_application_notification act old new
                      (s\<lparr>applications := map (\<lambda>a. if a_id a = aid then new else a) (applications s)\<rparr>)))"

subsection \<open>INSERT INTO documents and document_expiry_notification\<close>

text \<open>\<open>notify_document_expiry\<close> runs AFTER INSERT OR UPDATE on \<open>documents\<close>
  (\<open>document_status_notification\<close> runs after an update only). \<open>now\<close> is the time of the
  transaction, \<open>interval '30 days'\<close> is 30 times 86400 seconds, and \<open>to_char\<close> stands for
  PostgreSQL's \<open>to_char(_, 'DD/MM/YYYY')\<close>. The literal of the content holds the bytes
  C3 83 C2 A1 after "vencer".\<close>

definition notify_document_expiry ::
  "(timestamptz \<Rightarrow> string) \<Rightarrow> timestamptz \<Rightarrow> actor \<Rightarrow> document \<Rightarrow> db \<Rightarrow> error + db" where
  "notify_document_expiry to_char now act new s =
     (case d_expiry_date new of
        None \<Rightarrow> Inr s
      | Some t \<Rightarrow>
          if now < t \<and> t \<le> now + 30 * 86400 then
            insert_notification act
              \<lparr>n_user_id = d_user_id new,
               n_type = ''document_expiry'',
               n_title = ''Documento por vencer'',
               n_content = Some (''El documento '' @ [CHR 0x22] @ d_title new @ [CHR 0x22] @ '' vencer''
                                 @ [CHR 0xC3, CHR 0x83, CHR 0xC2, CHR 0xA1] @ '' el '' @ to_char t),
               n_read = Some False,
               n_related_id = Some (d_id new)\<rparr> s
          else Inr s)"

definition documents_type_check :: "document \<Rightarrow> bool" where
  "documents_type_check d = (d_type d \<in> set [''driver_license'', ''emergency_title'', ''other_title''])"

definition documents_status_check :: "document \<Rightarrow> bool" where
  "documents_status_check d = (d_status d \<in> set [''pending'', ''approved'', ''rejected''])"

definition insert_document ::
  "(timestamptz \<Rightarrow> string) \<Rightarrow> timestamptz \<Rightarrow> actor \<Rightarrow> document \<Rightarrow> db \<Rightarrow> error + db" where
  "insert_document to_char now act d s =
     (if \<not> row_policy_admits act (\<lambda>uid. documents_insert_policy uid d) then Inl (Rls_violation ''documents'')
      else if \<not> documents_status_check d then Inl (Check_violation ''documents_status_check'')
      else if \<not> documents_type_check d then Inl (Check_violation ''documents_type_check'')
      else if list_ex (\<lambda>r. d_id r = d_id d) (documents s) then Inl (Unique_violation ''documents_pkey'')
      else if (case d_user_id d of None \<Rightarrow> False | Some u \<Rightarrow> \<not> is_profile s u)
        then Inl (Foreign_key_violation ''documents_user_id_fkey'')
      else notify_document_expiry to_char now act d (s\<lparr>documents := documents s @ [d]\<rparr>))"

subsection \<open>UPDATE of selection_processes and its triggers\<close>

text \<open>\<open>create_process_update_notification\<close>, fired AFTER UPDATE OF status.\<close>

definition create_process_update_notification :: "actor \<Rightarrow> selection_process \<Rightarrow> db \<Rightarrow> error + db" where
  "create_process_update_notification act new s =
     (case insert_notification act
        \<lparr>n_user_id = sp_candidate_id new,
         n_type = ''process_update'',
         n_title = ''Actualizaci'' @ o_acute @ ''n del proceso de selecci'' @ o_acute @ ''n'',
         n_content = Some
           (if sp_status new = ''in_progress'' then ''Tu proceso de selecci'' @ o_acute @ ''n ha comenzado''
            else if sp_status new = ''completed'' then ''Tu proceso de selecci'' @ o_acute @ ''n ha finalizado''
            else if sp_status new = ''rejected''
              then ''Lo sentimos, tu proceso de selecci'' @ o_acute @ ''n ha sido rechazado''
            else ''Tu proceso de selecci'' @ o_acute @ ''n ha sido actualizado''),
         n_read = Some False,
         n_related_id = Some (sp_id new)\<rparr> s of
        Inl err \<Rightarrow> Inl err
      | Inr s1 \<Rightarrow>
          insert_email_notification act
            \<lparr>e_type = ''process_update'',
             e_recipient_id = sp_candidate_id new,
             e_subject =
               (if sp_status new = ''in_progress'' then ''Proceso de selecci'' @ o_acute @ ''n iniciado''
                else if sp_status new = ''completed'' then ''Proceso de selecci'' @ o_acute @ ''n completado''
                else if sp_status new = ''rejected'' then ''Actualizaci'' @ o_acute @ ''n sobre tu postulaci'' @ o_acute @ ''n''
                else ''Actualizaci'' @ o_acute @ ''n del proceso de selecci'' @ o_acute @ ''n''),
             e_content =
               (if sp_status new = ''in_progress''
                  then ''Tu proceso de selecci'' @ o_acute @ ''n ha comenzado. Por favor, mantente atento a las pr''
                       @ o_acute @ ''ximas etapas.''
                else if sp_status new = ''completed''
                  then ''Felicitaciones! Tu proceso de selecci'' @ o_acute @ ''n ha finalizado exitosamente.''
                else if sp_status new = ''rejected''
                  then ''Lamentamos informarte que no continuaremos con tu proceso de selecci'' @ o_acute
                       @ ''n. Te agradecemos tu inter'' @ e_acute @ ''s y te deseamos '' @ e_acute
                       @ ''xito en tu b'' @ u_acute @ ''squeda laboral.''
                else ''Ha habido una actualizaci'' @ o_acute @ ''n en tu proceso de selecci'' @ o_acute
                     @ ''n. Por favor, ingresa a la plataforma para m'' @ a_acute @ ''s detalles.''),
             e_status = ''pending''\<rparr> s1)"

text \<open>\<open>create_assessment_invitation\<close>, fired AFTER UPDATE OF required_assessments: an
  \<open>INSERT ... SELECT ... WHERE NEW.required_assessments <> '{}'\<close> into \<open>email_notifications\<close>
  (it inserts nothing into \<open>notifications\<close>).\<close>

definition assessment_invitation_email :: "selection_process \<Rightarrow> email_notification" where
  "assessment_invitation_email new =
     \<lparr>e_type = ''assessment_invitation'',
      e_recipient_id = sp_candidate_id new,
      e_subject = ''Evaluaci'' @ o_acute @ ''n de habilidades pendiente'',
      e_content = ''Se te ha asignado una nueva evaluaci'' @ o_acute
                  @ ''n de habilidades. Por favor, ingresa a la plataforma para completarla.'',
      e_status = ''pending''\<rparr>"

definition create_assessment_invitation ::
  "actor \<Rightarrow> selection_process \<Rightarrow> selection_process \<Rightarrow> db \<Rightarrow> error + db" where
  "create_assessment_invitation act old new s =
     (if is_true (is_distinct_from (sp_required_assessments new) (sp_required_assessments old)) then
        (if is_true (sql_ne (sp_required_assessments new) (Some [])) then
           insert_email_notification act (assessment_invitation_email new) s
         else Inr s)
      else Inr s)"

definition selection_processes_status_check :: "selection_process \<Rightarrow> bool" where
  "selection_processes_status_check p =
     (sp_status p \<in> set [''pending'', ''in_progress'', ''completed'', ''rejected''])"

text \<open>\<open>UPDATE selection_processes SET ... WHERE id = pid\<close>. The SET list is a record of the
  assigned columns (\<open>None\<close>: the column is not in the list). The BEFORE UPDATE trigger
  \<open>update_updated_at_column\<close> stamps the row; of the AFTER triggers,
  \<open>assessment_invitation_trigger\<close> comes before \<open>process_update_notification_trigger\<close> (triggers
  of one event fire in the order of their names), each only when its column is in the SET
  list.\<close>

record sp_set =
  set_status :: "string option"
  set_required_assessments :: "uuid list option option"

definition sp_assign :: "sp_set \<Rightarrow> selection_process \<Rightarrow> selection_process" where
  "sp_assign u p =
     p\<lparr>sp_status := (case set_status u of None \<Rightarrow> sp_status p | Some v \<Rightarrow> v),
       sp_required_assessments :=
         (case set_required_assessments u of None \<Rightarrow> sp_required_assessments p | Some v \<Rightarrow> v)\<rparr>"

definition update_selection_process :: "timestamptz \<Rightarrow> actor \<Rightarrow> uuid \<Rightarrow> sp_set \<Rightarrow> db \<Rightarrow> error + db" where
  "update_selection_process now act pid u s =
     (case policy_admits act (\<lambda>uid. rrhh_can_manage_selection_processes uid s) of
        Inl err \<Rightarrow> Inl err
      | Inr ok \<Rightarrow>
          (case find (\<lambda>p. sp_id p = pid \<and> ok) (selection_processes s) of
             None \<Rightarrow> Inr s
           | Some old \<Rightarrow>
               let new = (sp_assign u old)\<lparr>sp_updated_at := Some now\<rparr> in
               if \<not> ok then Inl (Rls_violation ''selection_processes'')
               else if \<not> selection_processes_status_check new
                 then Inl (Check_violation ''selection_processes_status_check'')
               else
                 let s1 = s\<lparr>selection_processes :=
                              map (\<lambda>p. if sp_id p = pid then new else p) (selection_processes s)\<rparr> in
                 (case (if set_required_assessments u = None then Inr s1
                        else create_assessment_invitation act old new s1) of
                    Inl err \<Rightarrow> Inl err
                  | Inr s2 \<Rightarrow>
                      if set_status u = None then Inr s2
                      else create_process_update_notification act new s2)))"

subsection \<open>UPDATE of candidate_evaluations.status and evaluation_complete_notification_trigger\<close>

text \<open>\<open>notify_evaluation_complete\<close>, fired AFTER UPDATE OF status. Its INSERT selects from
  \<open>selection_processes\<close> the row with \<open>id = NEW.process_id\<close>; a row of \<open>candidate_evaluations\<close>
  has a \<open>stage_id\<close> and no \<open>process_id\<close>, so running the INSERT raises "record new has no
  field process_id".\<close>

definition notify_evaluation_complete :: "actor \<Rightarrow> candidate_evaluation \<Rightarrow> db \<Rightarrow> error + db" where
  "notify_evaluation_complete act new s =
     (if ce_status new = ''completed'' then Inl (Undefined_field ''process_id'') else Inr s)"

definition candidate_evaluations_score_check :: "candidate_evaluation \<Rightarrow> bool" where
  "candidate_evaluations_score_check e =
     (case ce_score e of None \<Rightarrow> True | Some v \<Rightarrow> 0 \<le> v \<and> v \<le> 100)"

definition candidate_evaluations_status_check :: "candidate_evaluation \<Rightarrow> bool" where
  "candidate_evaluations_status_check e = (ce_status e \<in> set [''pending'', ''passed'', ''failed''])"

text \<open>\<open>UPDATE candidate_evaluations SET status = v WHERE id = eid\<close>, with the BEFORE UPDATE
  trigger \<open>update_updated_at_column\<close>.\<close>

definition update_candidate_evaluation_status ::
  "timestamptz \<Rightarrow> actor \<Rightarrow> uuid \<Rightarrow> string \<Rightarrow> db \<Rightarrow> error + db" where
  "update_candidate_evaluation_status now act eid v s =
     (case policy_admits act (\<lambda>uid. rrhh_can_manage_evaluations uid s) of
        Inl err \<Rightarrow> Inl err
      | Inr ok \<Rightarrow>
          (case find (\<lambda>e. ce_id e = eid \<and> ok) (candidate_evaluations s) of
             None \<Rightarrow> Inr s
           | Some old \<Rightarrow>
               let new = old\<lparr>ce_status := v, ce_updated_at := Some now\<rparr> in
               if \<not> ok then Inl (Rls_violation ''candidate_evaluations'')
               else if \<not> candidate_evaluations_score_check new
                 then Inl (Check_violation ''candidate_evaluations_score_check'')
               else if \<not> candidate_evaluations_status_check new
                 then Inl (Check_violation ''candidate_evaluations_status_check'')
               else notify_evaluation_complete act new
                      (s\<lparr>candidate_evaluations :=
                           map (\<lambda>e. if ce_id e = eid then new else e) (candidate_evaluations s)\<rparr>)))"

subsection \<open>DELETE FROM evaluation_templates\<close>

text \<open>\<open>DELETE FROM evaluation_templates WHERE id = tid\<close>. Two foreign keys reference the table:
  \<open>evaluation_criteria.template_id\<close> with ON DELETE CASCADE and
  \<open>candidate_evaluations.template_id\<close> with no action named, which rejects the delete while a
  row still references the template. Referential actions are not subject to the policies of
  the referencing table.\<close>

definition delete_evaluation_template :: "actor \<Rightarrow> uuid \<Rightarrow> db \<Rightarrow> error + db" where
  "delete_evaluation_template act tid s =
     (case policy_admits act (\<lambda>uid. rrhh_can_manage_evaluation_templates uid s) of
        Inl err \<Rightarrow> Inl err
      | Inr ok \<Rightarrow>
          (case find (\<lambda>t. et_id t = tid \<and> ok) (evaluation_templates s) of
             None \<Rightarrow> Inr s
           | Some t \<Rightarrow>
               if list_ex (\<lambda>e. ce_template_id e = Some tid) (candidate_evaluations s)
                 then Inl (Foreign_key_violation ''candidate_evaluations_template_id_fkey'')
               else Inr (s\<lparr>evaluation_templates := filter (\<lambda>t. et_id t \<noteq> tid) (evaluation_templates s),
                           evaluation_criteria :=
                             filter (\<lambda>c. ec_template_id c \<noteq> Some tid) (evaluation_criteria s)\<rparr>)))"

section \<open>A sample database\<close>

text \<open>Identity 1 has the rrhh role, identities 2 and 3 are candidates. Offer 10 is closed, offer
  11 open. Template 50 has two criteria, template 51 one, and one criterion has no template.\<close>

definition sample_db :: db where
  "sample_db =
     \<lparr>profiles =
        [\<lparr>p_id = 1, p_role = ''rrhh'', p_nombre = ''Admin'', p_apellidos = ''RRHH''\<rparr>,
         \<lparr>p_id = 2, p_role = ''candidato'', p_nombre = ''Ana'', p_apellidos = ''Ruiz''\<rparr>,
         \<lparr>p_id = 3, p_role = ''candidato'', p_nombre = ''Luis'', p_apellidos = ''Sanz''\<rparr>],
      job_offers =
        [\<lparr>jo_id = 10, jo_titulo = ''Conductor'', jo_estado = Some ''cerrada'', jo_created_by = Some 1\<rparr>,
         \<lparr>jo_id = 11, jo_titulo = ''Enfermero'', jo_estado = Some ''abierta'', jo_created_by = Some 1\<rparr>],
      applications =
        [\<lparr>a_id = 20, a_job_offer_id = Some 11, a_user_id = Some 2, a_estado = Some ''pendiente''\<rparr>],
      messages = [],
      notifications = [],
      email_notifications = [],
      documents = [],
      selection_processes =
        [\<lparr>sp_id = 30, sp_job_offer_id = Some 11, sp_candidate_id = Some 2, sp_status = ''pending'',
          sp_required_assessments = Some [], sp_updated_at = None\<rparr>],
      candidate_evaluations =
        [\<lparr>ce_id = 40, ce_stage_id = None, ce_score = None, ce_status = ''pending'',
          ce_template_id = None, ce_updated_at = None\<rparr>],
      evaluation_templates =
        [\<lparr>et_id = 50, et_name = ''Conductores''\<rparr>, \<lparr>et_id = 51, et_name = ''Sanitarios''\<rparr>],
      evaluation_criteria =
        [\<lparr>ec_id = 60, ec_template_id = Some 50, ec_name = ''Experiencia''\<rparr>,
         \<lparr>ec_id = 61, ec_template_id = Some 50, ec_name = ''Permisos''\<rparr>,
         \<lparr>ec_id = 62, ec_template_id = Some 51, ec_name = ''Titulaci'' @ o_acute @ ''n''\<rparr>,
         \<lparr>ec_id = 63, ec_template_id = None, ec_name = ''Idiomas''\<rparr>]\<rparr>"

section \<open>Three-valued logic, evaluated\<close>

lemma is_true_simps [simp]: "is_true (Some b) = b" "is_true None = False"
  by (simp_all add: is_true_def)

lemma is_true_sql_eq: "is_true (sql_eq a b) = (a \<noteq> None \<and> a = b)"
  by (cases a; cases b) (simp_all add: sql_eq_def)

lemma is_true_sql_ne: "is_true (sql_ne a b) = (a \<noteq> None \<and> b \<noteq> None \<and> a \<noteq> b)"
  by (cases a; cases b) (simp_all add: sql_ne_def)

lemma is_true_is_distinct_from: "is_true (is_distinct_from a b) = (a \<noteq> b)"
  by (simp add: is_distinct_from_def)

lemma is_true_sql_and: "is_true (sql_and a b) = (is_true a \<and> is_true b)"
  by (cases "(a, b)" rule: sql_and.cases) simp_all

lemma is_true_sql_or: "is_true (sql_or a b) = (is_true a \<or> is_true b)"
  by (cases "(a, b)" rule: sql_or.cases) simp_all

section \<open>The policies that read profiles\<close>

text \<open>Whatever relations are being expanded, reading \<open>profiles\<close> as an authenticated identity
  ends in 42P17: after at most one step \<open>profiles\<close> is on the list.\<close>

lemma expand_profiles_policies_error:
  "expand_profiles_policies active = Inl (Infinite_recursion ''profiles'')"
  by (cases "''profiles'' \<in> set active") simp_all

declare expand_profiles_policies.simps [simp del]

lemma exists_rrhh_profile_error:
  "exists_rrhh_profile rel uid s = Inl (Infinite_recursion ''profiles'')"
  by (simp add: exists_rrhh_profile_def expand_profiles_policies_error)

lemma select_profiles_authenticated:
  "select_profiles (Authenticated uid) s = Inl (Infinite_recursion ''profiles'')"
  by (simp add: select_profiles_def rrhh_can_view_all_profiles_def exists_rrhh_profile_error)

lemma policy_admits_owner: "policy_admits Owner pol = Inr True"
  by (simp add: policy_admits_def)

lemma policy_admits_rrhh_policies:
  "policy_admits (Authenticated uid) (\<lambda>uid. rrhh_can_manage_applications uid s) = Inl (Infinite_recursion ''profiles'')"
  "policy_admits (Authenticated uid) (\<lambda>uid. rrhh_can_manage_selection_processes uid s) = Inl (Infinite_recursion ''profiles'')"
  "policy_admits (Authenticated uid) (\<lambda>uid. rrhh_can_manage_evaluations uid s) = Inl (Infinite_recursion ''profiles'')"
  "policy_admits (Authenticated uid) (\<lambda>uid. rrhh_can_manage_evaluation_templates uid s) = Inl (Infinite_recursion ''profiles'')"
  "policy_admits (Authenticated uid) (\<lambda>uid. allow_trigger_based_notification_creation uid s) = Inl (Infinite_recursion ''profiles'')"
  "policy_admits (Authenticated uid) (\<lambda>uid. rrhh_can_view_all_email_notifications uid s) = Inl (Infinite_recursion ''profiles'')"
  by (simp_all add: policy_admits_def rrhh_can_manage_applications_def
      rrhh_can_manage_selection_processes_def rrhh_can_manage_evaluations_def
      rrhh_can_manage_evaluation_templates_def allow_trigger_based_notification_creation_def
      rrhh_can_view_all_email_notifications_def exists_rrhh_profile_error)

text \<open>So every statement of an authenticated identity on a table whose policies for that
  statement hold the subquery is rejected, whatever the rows.\<close>

lemma authenticated_statements_rejected:
  "insert_notification (Authenticated uid) n s = Inl (Infinite_recursion ''profiles'')"
  "insert_email_notification (Authenticated uid) e s = Inl (Infinite_recursion ''profiles'')"
  "insert_application (Authenticated uid) a s = Inl (Infinite_recursion ''profiles'')"
  "update_application_estado (Authenticated uid) aid v s = Inl (Infinite_recursion ''profiles'')"
  "update_selection_process now (Authenticated uid) pid u s = Inl (Infinite_recursion ''profiles'')"
  "update_candidate_evaluation_status now (Authenticated uid) eid st s = Inl (Infinite_recursion ''profiles'')"
  "delete_evaluation_template (Authenticated uid) tid s = Inl (Infinite_recursion ''profiles'')"
  "select_job_offers (Authenticated uid) s = Inl (Infinite_recursion ''profiles'')"
  by (simp_all add: insert_notification_def insert_email_notification_def insert_application_def
      update_application_estado_def update_selection_process_def
      update_candidate_evaluation_status_def delete_evaluation_template_def select_job_offers_def
      rrhh_can_manage_job_offers_def exists_rrhh_profile_error policy_admits_rrhh_policies)

text \<open>\<open>profiles.id\<close> is the primary key, so an identity has one role.\<close>

lemma candidate_not_rrhh:
  assumes "distinct (map p_id (profiles s))" and "has_role s i ''candidato''"
  shows "\<not> has_role s i ''rrhh''"
proof
  assume "has_role s i ''rrhh''"
  then obtain q where q: "q \<in> set (profiles s)" "p_id q = i" "p_role q = ''rrhh''"
    by (auto simp: has_role_def list_ex_iff)
  from assms(2) obtain p where p: "p \<in> set (profiles s)" "p_id p = i" "p_role p = ''candidato''"
    by (auto simp: has_role_def list_ex_iff)
  from assms(1) p(1,2) q(1,2) have "p = q"
    by (simp add: distinct_map inj_on_def)
  with p(3) q(3) show False by simp
qed

section \<open>Visibility of job offers\<close>

text \<open>
  C1. An identity whose profile has the role \<open>candidato\<close> does not see a job offer whose
  \<open>estado\<close> is not \<open>'abierta'\<close> (it is \<open>'cerrada'\<close>, or NULL): neither select policy of
  \<open>job_offers\<close> is true for the pair (the one on \<open>estado\<close> is false or NULL, the one of the rrhh
  role raises 42P17), and a select by that identity does not return the row. No policy reads
  \<open>created_by\<close>, so this holds whoever created the offer.
\<close>

theorem closed_offer_hidden_from_candidate:
  assumes "distinct (map p_id (profiles s))"
    and "has_role s i ''candidato''"
    and "jo_estado o' \<noteq> Some ''abierta''"
  shows "rrhh_can_manage_job_offers i s \<noteq> Inr (Some True)
       \<and> \<not> is_true (everyone_can_view_active_job_offers i s o')
       \<and> o' \<notin> set (returned_rows (select_job_offers (Authenticated i) s))"
proof -
  have a: "rrhh_can_manage_job_offers i s \<noteq> Inr (Some True)"
    by (simp add: rrhh_can_manage_job_offers_def exists_rrhh_profile_error)
  have b: "\<not> is_true (everyone_can_view_active_job_offers i s o')"
    using assms(3)
    by (simp add: everyone_can_view_active_job_offers_def is_true_sql_eq)
  have c: "o' \<notin> set (returned_rows (select_job_offers (Authenticated i) s))"
    by (simp add: authenticated_statements_rejected returned_rows_def)
  from a b c show ?thesis by simp
qed

theorem closed_offer_hidden_from_candidate_witness:
  "distinct (map p_id (profiles sample_db)) \<and> has_role sample_db 2 ''candidato''
   \<and> jo_estado (job_offers sample_db ! 0) = Some ''cerrada''
   \<and> job_offers sample_db ! 0 \<in> set (job_offers sample_db)
   \<and> job_offers sample_db ! 0 \<notin> set (returned_rows (select_job_offers (Authenticated 2) sample_db))"
proof -
  have d: "distinct (map p_id (profiles sample_db))" by (simp add: sample_db_def)
  have r: "has_role sample_db 2 ''candidato''" by (simp add: sample_db_def has_role_def)
  have e: "jo_estado (job_offers sample_db ! 0) \<noteq> Some ''abierta''" by (simp add: sample_db_def)
  show ?thesis
    using closed_offer_hidden_from_candidate [OF d r e] d r
    by (simp add: sample_db_def)
qed

section \<open>Reading messages and marking them as read\<close>

lemma messages_select_iff:
  "messages_select_policy uid m = (uid = m_sender_id m \<or> uid = m_receiver_id m)"
  by (auto simp: messages_select_policy_def users_can_read_their_messages_def is_true_sql_or is_true_sql_eq)

text \<open>The update policies compare \<open>read\<close> with itself, so no update passes them, whoever acts
  and whatever the old and the new row are.\<close>

lemma messages_update_never: "\<not> messages_update_permitted uid old new"
  by (simp add: messages_update_permitted_def users_can_mark_messages_as_read_def
      is_true_sql_and is_true_is_distinct_from)

lemma notifications_update_never: "\<not> notifications_update_permitted uid old new"
  by (simp add: notifications_update_permitted_def mark_notifications_as_read_check_def
      is_true_sql_and is_true_is_distinct_from)

text \<open>
  C2. A message can be selected by its sender and its receiver and by no one else. An update
  of a message is permitted only to its receiver and only when it takes \<open>read\<close> from false to
  true; an update of a notification only to its owner and only in that direction. On the
  migrations the restriction holds with nothing left inside it: by the two lemmas above no
  update of either table passes its policy, the receiver's false-to-true update included.
\<close>

theorem read_flag_restricted_to_receiver:
  "(messages_select_policy uid m \<longleftrightarrow> uid = m_sender_id m \<or> uid = m_receiver_id m)
   \<and> (messages_update_permitted uid old new \<longrightarrow>
        uid = m_receiver_id old \<and> m_read old = Some False \<and> m_read new = Some True)
   \<and> (notifications_update_permitted uid nold nnew \<longrightarrow>
        n_user_id nold = Some uid \<and> n_read nold = Some False \<and> n_read nnew = Some True)"
  by (simp add: messages_select_iff messages_update_never notifications_update_never)

theorem read_flag_restricted_to_receiver_witness:
  "messages_select_policy 1
     \<lparr>m_sender_id = 1, m_receiver_id = 2, m_content = ''Hola'', m_read = Some True, m_application_id = None\<rparr>
   \<and> messages_select_policy 2
     \<lparr>m_sender_id = 1, m_receiver_id = 2, m_content = ''Hola'', m_read = Some True, m_application_id = None\<rparr>
   \<and> \<not> messages_select_policy 3
     \<lparr>m_sender_id = 1, m_receiver_id = 2, m_content = ''Hola'', m_read = Some True, m_application_id = None\<rparr>
   \<and> \<not> messages_update_permitted 2
     \<lparr>m_sender_id = 1, m_receiver_id = 2, m_content = ''Hola'', m_read = Some True, m_application_id = None\<rparr>
     \<lparr>m_sender_id = 1, m_receiver_id = 2, m_content = ''Hola'', m_read = Some False, m_application_id = None\<rparr>
   \<and> \<not> messages_update_permitted 3
     \<lparr>m_sender_id = 1, m_receiver_id = 2, m_content = ''Hola'', m_read = Some False, m_application_id = None\<rparr>
     \<lparr>m_sender_id = 1, m_receiver_id = 2, m_content = ''Hola'', m_read = Some True, m_application_id = None\<rparr>
   \<and> \<not> notifications_update_permitted 2
     \<lparr>n_user_id = Some 2, n_type = ''message'', n_title = ''Nuevo mensaje'',
      n_content = Some ''Mensaje de Admin RRHH'', n_read = Some True, n_related_id = None\<rparr>
     \<lparr>n_user_id = Some 2, n_type = ''message'', n_title = ''Nuevo mensaje'',
      n_content = Some ''Mensaje de Admin RRHH'', n_read = Some False, n_related_id = None\<rparr>
   \<and> \<not> notifications_update_permitted 3
     \<lparr>n_user_id = Some 2, n_type = ''message'', n_title = ''Nuevo mensaje'',
      n_content = Some ''Mensaje de Admin RRHH'', n_read = Some False, n_related_id = None\<rparr>
     \<lparr>n_user_id = Some 2, n_type = ''message'', n_title = ''Nuevo mensaje'',
      n_content = Some ''Mensaje de Admin RRHH'', n_read = Some True, n_related_id = None\<rparr>"
proof -
  let ?mt = "\<lparr>m_sender_id = 1, m_receiver_id = 2, m_content = ''Hola'', m_read = Some True, m_application_id = None\<rparr>"
  let ?mf = "\<lparr>m_sender_id = 1, m_receiver_id = 2, m_content = ''Hola'', m_read = Some False, m_application_id = None\<rparr>"
  let ?nt = "\<lparr>n_user_id = Some 2, n_type = ''message'', n_title = ''Nuevo mensaje'',
      n_content = Some ''Mensaje de Admin RRHH'', n_read = Some True, n_related_id = None\<rparr>"
  let ?nf = "\<lparr>n_user_id = Some 2, n_type = ''message'', n_title = ''Nuevo mensaje'',
      n_content = Some ''Mensaje de Admin RRHH'', n_read = Some False, n_related_id = None\<rparr>"
  from read_flag_restricted_to_receiver [of 1 ?mt ?mt ?mt ?nt ?nt]
  have s1: "messages_select_policy 1 ?mt" by simp
  from read_flag_restricted_to_receiver [of 2 ?mt ?mt ?mf ?nt ?nf]
  have s2: "messages_select_policy 2 ?mt"
    and bwd: "\<not> messages_update_permitted 2 ?mt ?mf"
    and nbwd: "\<not> notifications_update_permitted 2 ?nt ?nf"
    by auto
  from read_flag_restricted_to_receiver [of 3 ?mt ?mf ?mt ?nf ?nt]
  have s3: "\<not> messages_select_policy 3 ?mt"
    and other: "\<not> messages_update_permitted 3 ?mf ?mt"
    and nother: "\<not> notifications_update_permitted 3 ?nf ?nt"
    by auto
  from s1 s2 s3 bwd other nbwd nother show ?thesis by simp
qed

section \<open>Updates of a selection process\<close>

text \<open>\<open>'process_update'\<close> is not among the values that the CHECK on \<open>notifications.type\<close> admits,
  so the first INSERT of \<open>create_process_update_notification\<close> never succeeds, whoever runs it.\<close>

lemma process_update_notification_fails:
  "isl (create_process_update_notification act new s)"
proof (cases act)
  case (Authenticated uid)
  then show ?thesis
    by (simp add: create_process_update_notification_def authenticated_statements_rejected)
next
  case Owner
  then show ?thesis
    by (simp add: create_process_update_notification_def insert_notification_def
        policy_admits_owner notifications_type_check_def split: option.splits)
qed

text \<open>
  C3. The claim expects one row in \<open>notifications\<close> and one in \<open>email_notifications\<close> when the
  status of a selection process goes from \<open>'pending'\<close> to \<open>'in_progress'\<close>. On the code the
  update of process 30 is rejected and no row is stored in either table. Made by the rrhh
  identity 1 it raises 42P17 when the policy of \<open>selection_processes\<close> is expanded; made
  without row security it reaches the trigger, whose insert into \<open>notifications\<close> violates the
  CHECK on \<open>type\<close>.
\<close>

theorem process_status_update_rejected:
  "update_selection_process 1000 (Authenticated 1) 30
     \<lparr>set_status = Some ''in_progress'', set_required_assessments = None\<rparr> sample_db
     = Inl (Infinite_recursion ''profiles'')
   \<and> update_selection_process 1000 Owner 30
     \<lparr>set_status = Some ''in_progress'', set_required_assessments = None\<rparr> sample_db
     = Inl (Check_violation ''notifications_type_check'')"
proof (intro conjI)
  show "update_selection_process 1000 (Authenticated 1) 30
     \<lparr>set_status = Some ''in_progress'', set_required_assessments = None\<rparr> sample_db
     = Inl (Infinite_recursion ''profiles'')"
    by (simp add: update_selection_process_def policy_admits_def
        rrhh_can_manage_selection_processes_def exists_rrhh_profile_def
        expand_profiles_policies.simps)
  show "update_selection_process 1000 Owner 30
     \<lparr>set_status = Some ''in_progress'', set_required_assessments = None\<rparr> sample_db
     = Inl (Check_violation ''notifications_type_check'')"
    by (simp add: update_selection_process_def policy_admits_owner
        sample_db_def sp_assign_def selection_processes_status_check_def
        create_process_update_notification_def insert_notification_def notifications_type_check_def Let_def)
qed

section \<open>A failing fan-out\<close>

text \<open>
  C4, as stated, fails. Identity 2, a candidate, inserts a message for identity 1. The insert
  passes the policy and the constraints of \<open>messages\<close>; the trigger's insert into
  \<open>notifications\<close> fails (its subquery on \<open>profiles\<close> and the insert policy of \<open>notifications\<close>
  raise 42P17); the error is not caught, and the insert of the message is rejected with it.
\<close>

theorem candidate_message_insert_rejected:
  "create_message_notification (Authenticated 2)
     \<lparr>m_sender_id = 2, m_receiver_id = 1, m_content = ''Hola'', m_read = Some False, m_application_id = Some 20\<rparr>
     (sample_db\<lparr>messages := messages sample_db @
        [\<lparr>m_sender_id = 2, m_receiver_id = 1, m_content = ''Hola'', m_read = Some False, m_application_id = Some 20\<rparr>]\<rparr>)
     = Inl (Infinite_recursion ''profiles'')
   \<and> insert_message (Authenticated 2)
     \<lparr>m_sender_id = 2, m_receiver_id = 1, m_content = ''Hola'', m_read = Some False, m_application_id = Some 20\<rparr>
     sample_db = Inl (Infinite_recursion ''profiles'')"
  by (simp add: insert_message_def sample_db_def row_policy_admits_def messages_insert_policy_def
      users_can_create_messages_def sql_eq_def is_profile_def create_message_notification_def
      sender_names_def select_profiles_authenticated)

text \<open>
  C4, amended. A failure to append the derived row is not swallowed: when the trigger function
  of a mutation fails, the mutation fails. This is shown for the insert of a message, the
  insert of a document and the update of the status of a selection process.
\<close>

theorem fan_out_failure_rejects_write:
  "(create_message_notification act m (s\<lparr>messages := messages s @ [m]\<rparr>) = Inl e
      \<longrightarrow> (\<exists>e'. insert_message act m s = Inl e'))
   \<and> (notify_document_expiry to_char now act d (s\<lparr>documents := documents s @ [d]\<rparr>) = Inl e
      \<longrightarrow> (\<exists>e'. insert_document to_char now act d s = Inl e'))
   \<and> (policy_admits act (\<lambda>uid. rrhh_can_manage_selection_processes uid s) = Inr True
       \<and> find (\<lambda>p. sp_id p = pid) (selection_processes s) = Some old
       \<and> create_process_update_notification act
           ((sp_assign \<lparr>set_status = Some v, set_required_assessments = None\<rparr> old)\<lparr>sp_updated_at := Some now\<rparr>)
           (s\<lparr>selection_processes :=
                map (\<lambda>p. if sp_id p = pid
                      then (sp_assign \<lparr>set_status = Some v, set_required_assessments = None\<rparr> old)\<lparr>sp_updated_at := Some now\<rparr>
                      else p) (selection_processes s)\<rparr>) = Inl e
      \<longrightarrow> (\<exists>e'. update_selection_process now act pid \<lparr>set_status = Some v, set_required_assessments = None\<rparr> s = Inl e'))"
proof (intro conjI impI)
  assume "create_message_notification act m (s\<lparr>messages := messages s @ [m]\<rparr>) = Inl e"
  then show "\<exists>e'. insert_message act m s = Inl e'"
    by (simp add: insert_message_def)
next
  assume "notify_document_expiry to_char now act d (s\<lparr>documents := documents s @ [d]\<rparr>) = Inl e"
  then show "\<exists>e'. insert_document to_char now act d s = Inl e'"
    by (simp add: insert_document_def)
next
  let ?u = "\<lparr>set_status = Some v, set_required_assessments = None\<rparr>"
  let ?new = "(sp_assign ?u old)\<lparr>sp_updated_at := Some now\<rparr>"
  assume "policy_admits act (\<lambda>uid. rrhh_can_manage_selection_processes uid s) = Inr True
       \<and> find (\<lambda>p. sp_id p = pid) (selection_processes s) = Some old
       \<and> create_process_update_notification act ?new
           (s\<lparr>selection_processes := map (\<lambda>p. if sp_id p = pid then ?new else p) (selection_processes s)\<rparr>) = Inl e"
  then show "\<exists>e'. update_selection_process now act pid ?u s = Inl e'"
    by (simp add: update_selection_process_def Let_def)
qed

theorem fan_out_failure_rejects_write_witness:
  "(create_message_notification (Authenticated 2)
      \<lparr>m_sender_id = 2, m_receiver_id = 1, m_content = ''Hola'', m_read = Some False, m_application_id = None\<rparr>
      (sample_db\<lparr>messages := messages sample_db @
         [\<lparr>m_sender_id = 2, m_receiver_id = 1, m_content = ''Hola'', m_read = Some False, m_application_id = None\<rparr>]\<rparr>)
      = Inl (Infinite_recursion ''profiles'')
    \<and> (\<exists>e'. insert_message (Authenticated 2)
      \<lparr>m_sender_id = 2, m_receiver_id = 1, m_content = ''Hola'', m_read = Some False, m_application_id = None\<rparr>
      sample_db = Inl e'))
   \<and> (notify_document_expiry (\<lambda>t. ''11/04/2025'') 1000000 Owner
      \<lparr>d_id = 70, d_title = ''Carnet C'', d_type = ''driver_license'', d_status = ''pending'',
       d_expiry_date = Some 1864000, d_user_id = Some 2\<rparr>
      (sample_db\<lparr>documents := documents sample_db @
         [\<lparr>d_id = 70, d_title = ''Carnet C'', d_type = ''driver_license'', d_status = ''pending'',
           d_expiry_date = Some 1864000, d_user_id = Some 2\<rparr>]\<rparr>)
      = Inl (Check_violation ''notifications_type_check'')
    \<and> (\<exists>e'. insert_document (\<lambda>t. ''11/04/2025'') 1000000 Owner
      \<lparr>d_id = 70, d_title = ''Carnet C'', d_type = ''driver_license'', d_status = ''pending'',
       d_expiry_date = Some 1864000, d_user_id = Some 2\<rparr> sample_db = Inl e'))
   \<and> (policy_admits Owner (\<lambda>uid. rrhh_can_manage_selection_processes uid sample_db) = Inr True
    \<and> find (\<lambda>p. sp_id p = 30) (selection_processes sample_db)
      = Some \<lparr>sp_id = 30, sp_job_offer_id = Some 11, sp_candidate_id = Some 2, sp_status = ''pending'',
              sp_required_assessments = Some [], sp_updated_at = None\<rparr>
    \<and> (\<exists>e'. update_selection_process 1000 Owner 30
          \<lparr>set_status = Some ''completed'', set_required_assessments = None\<rparr> sample_db = Inl e'))"
proof -
  let ?m = "\<lparr>m_sender_id = 2, m_receiver_id = 1, m_content = ''Hola'', m_read = Some False, m_application_id = None\<rparr>"
  let ?d = "\<lparr>d_id = 70, d_title = ''Carnet C'', d_type = ''driver_license'', d_status = ''pending'',
             d_expiry_date = Some 1864000, d_user_id = Some 2\<rparr>"
  let ?p = "\<lparr>sp_id = 30, sp_job_offer_id = Some 11, sp_candidate_id = Some 2, sp_status = ''pending'',
             sp_required_assessments = Some [], sp_updated_at = None\<rparr>"
  let ?tc = "\<lambda>t::timestamptz. ''11/04/2025''"
  let ?u = "\<lparr>set_status = Some ''completed'', set_required_assessments = None\<rparr>"
  let ?new = "(sp_assign ?u ?p)\<lparr>sp_updated_at := Some 1000\<rparr>"
  let ?s1 = "sample_db\<lparr>selection_processes :=
               map (\<lambda>p. if sp_id p = 30 then ?new else p) (selection_processes sample_db)\<rparr>"
  have hm: "create_message_notification (Authenticated 2) ?m (sample_db\<lparr>messages := messages sample_db @ [?m]\<rparr>)
             = Inl (Infinite_recursion ''profiles'')"
    by (simp add: create_message_notification_def sender_names_def select_profiles_authenticated)
  have hd: "notify_document_expiry ?tc 1000000 Owner ?d (sample_db\<lparr>documents := documents sample_db @ [?d]\<rparr>)
             = Inl (Check_violation ''notifications_type_check'')"
    by (simp add: sample_db_def notify_document_expiry_def insert_notification_def
        policy_admits_owner notifications_type_check_def)
  have ha: "policy_admits Owner (\<lambda>uid. rrhh_can_manage_selection_processes uid sample_db) = Inr True"
    by (rule policy_admits_owner)
  have hf: "find (\<lambda>p. sp_id p = 30) (selection_processes sample_db) = Some ?p"
    by (simp add: sample_db_def)
  have hp: "create_process_update_notification Owner ?new ?s1 = Inl (Check_violation ''notifications_type_check'')"
    by (simp add: sample_db_def sp_assign_def create_process_update_notification_def
        insert_notification_def policy_admits_owner notifications_type_check_def)
  note t1 = fan_out_failure_rejects_write
    [of "Authenticated 2" ?m sample_db "Infinite_recursion ''profiles''" ?tc 1000000 ?d 30 ?p "''completed''"]
  note t2 = fan_out_failure_rejects_write
    [of Owner ?m sample_db "Check_violation ''notifications_type_check''" ?tc 1000000 ?d 30 ?p "''completed''"]
  note t3 = fan_out_failure_rejects_write
    [of Owner ?m sample_db "Check_violation ''notifications_type_check''" ?tc 1000 ?d 30 ?p "''completed''"]
  from t1 hm have a: "\<exists>e'. insert_message (Authenticated 2) ?m sample_db = Inl e'" by blast
  from t2 hd have b: "\<exists>e'. insert_document ?tc 1000000 Owner ?d sample_db = Inl e'" by blast
  from t3 ha hf hp have c: "\<exists>e'. update_selection_process 1000 Owner 30 ?u sample_db = Inl e'" by blast
  from hm hd ha hf a b c show ?thesis by blast
qed

section \<open>Completing an evaluation\<close>

text \<open>
  C5. The claim expects an update that sets the status of a candidate evaluation to
  \<open>'completed'\<close> to succeed and to append an email for the candidate of the parent process. On
  the code the update of evaluation 40 is rejected: made by the rrhh identity 1 it raises 42P17
  when the policy of \<open>candidate_evaluations\<close> is expanded; made without row security it
  violates the CHECK on \<open>candidate_evaluations.status\<close>, which admits \<open>'pending'\<close>, \<open>'passed'\<close> and
  \<open>'failed'\<close>. And the trigger function, run on a row with that status, fails on
  \<open>NEW.process_id\<close> before it inserts anything.
\<close>

theorem evaluation_completed_rejected:
  "update_candidate_evaluation_status 1000 (Authenticated 1) 40 ''completed'' sample_db
     = Inl (Infinite_recursion ''profiles'')
   \<and> update_candidate_evaluation_status 1000 Owner 40 ''completed'' sample_db
     = Inl (Check_violation ''candidate_evaluations_status_check'')
   \<and> notify_evaluation_complete Owner
       \<lparr>ce_id = 40, ce_stage_id = None, ce_score = None, ce_status = ''completed'',
        ce_template_id = None, ce_updated_at = Some 1000\<rparr> sample_db
     = Inl (Undefined_field ''process_id'')"
proof (intro conjI)
  show "update_candidate_evaluation_status 1000 (Authenticated 1) 40 ''completed'' sample_db
     = Inl (Infinite_recursion ''profiles'')"
    by (simp add: update_candidate_evaluation_status_def policy_admits_def
        rrhh_can_manage_evaluations_def exists_rrhh_profile_def expand_profiles_policies.simps)
  show "update_candidate_evaluation_status 1000 Owner 40 ''completed'' sample_db
     = Inl (Check_violation ''candidate_evaluations_status_check'')"
    by (simp add: update_candidate_evaluation_status_def policy_admits_owner sample_db_def
        candidate_evaluations_score_check_def candidate_evaluations_status_check_def Let_def)
  show "notify_evaluation_complete Owner
       \<lparr>ce_id = 40, ce_stage_id = None, ce_score = None, ce_status = ''completed'',
        ce_template_id = None, ce_updated_at = Some 1000\<rparr> sample_db
     = Inl (Undefined_field ''process_id'')"
    by (simp add: notify_evaluation_complete_def)
qed

section \<open>Inserting a document\<close>

text \<open>Outside the window of thirty days, and without an expiry date, the trigger does nothing.\<close>

lemma notify_document_expiry_outside_window:
  "d_expiry_date d = None \<or> d_expiry_date d = Some t \<and> (t \<le> now \<or> now + 30 * 86400 < t)
   \<Longrightarrow> notify_document_expiry to_char now act d s = Inr s"
  by (auto simp: notify_document_expiry_def)

text \<open>Inside the window the insert of the notification fails for every actor: for an
  authenticated identity on the insert policy, without row security on the CHECK of \<open>type\<close>.\<close>

lemma notify_document_expiry_inside_window:
  assumes that: "d_expiry_date d = Some t" "now < t" "t \<le> now + 30 * 86400"
  shows "isl (notify_document_expiry to_char now act d s)"
proof (cases act)
  case (Authenticated uid)
  then show ?thesis
    using that by (simp add: notify_document_expiry_def authenticated_statements_rejected)
next
  case Owner
  then show ?thesis
    using that
    by (simp add: notify_document_expiry_def insert_notification_def policy_admits_owner
        notifications_type_check_def split: option.splits)
qed

text \<open>
  C8. The claim expects the insert of a document that expires in ten days to create one
  \<open>'document_expiry'\<close> notification for its owner. On the code that insert is rejected and no
  notification is stored: for the candidate 2, who owns the document, and for the rrhh identity
  1 inserting a document of its own, the trigger's insert raises 42P17 on the insert policy of
  \<open>notifications\<close>; without row security it fails the CHECK on \<open>notifications.type\<close>, which
  does not admit \<open>'document_expiry'\<close>.
\<close>

theorem document_expiry_insert_rejected:
  "\<forall>to_char.
     insert_document to_char 1000000 (Authenticated 2)
       \<lparr>d_id = 70, d_title = ''Carnet C'', d_type = ''driver_license'', d_status = ''pending'',
        d_expiry_date = Some (1000000 + 10 * 86400), d_user_id = Some 2\<rparr> sample_db
       = Inl (Infinite_recursion ''profiles'')
   \<and> insert_document to_char 1000000 (Authenticated 1)
       \<lparr>d_id = 70, d_title = ''Carnet C'', d_type = ''driver_license'', d_status = ''pending'',
        d_expiry_date = Some (1000000 + 10 * 86400), d_user_id = Some 1\<rparr> sample_db
       = Inl (Infinite_recursion ''profiles'')
   \<and> insert_document to_char 1000000 Owner
       \<lparr>d_id = 70, d_title = ''Carnet C'', d_type = ''driver_license'', d_status = ''pending'',
        d_expiry_date = Some (1000000 + 10 * 86400), d_user_id = Some 2\<rparr> sample_db
       = Inl (Check_violation ''notifications_type_check'')"
  by (simp add: insert_document_def sample_db_def row_policy_admits_def documents_insert_policy_def
      users_can_manage_their_own_documents_def sql_eq_def documents_status_check_def
      documents_type_check_def is_profile_def notify_document_expiry_def
      insert_notification_def policy_admits_def allow_trigger_based_notification_creation_def
      exists_rrhh_profile_def expand_profiles_policies.simps notifications_type_check_def)

section \<open>Assessment invitations\<close>

text \<open>What an update of \<open>required_assessments\<close> alone does when row security does not apply, on
  a stored row that satisfies the constraints of its table.\<close>

lemma owner_update_required_assessments:
  assumes f: "find (\<lambda>p. sp_id p = pid) (selection_processes s) = Some p"
    and st: "selection_processes_status_check p"
    and fk: "case sp_candidate_id p of None \<Rightarrow> True | Some c \<Rightarrow> is_profile s c"
  shows "update_selection_process now Owner pid \<lparr>set_status = None, set_required_assessments = Some v\<rparr> s =
     Inr (s\<lparr>selection_processes :=
               map (\<lambda>r. if sp_id r = pid then p\<lparr>sp_required_assessments := v, sp_updated_at := Some now\<rparr> else r)
                 (selection_processes s),
            email_notifications :=
               email_notifications s @
                 (if v \<noteq> sp_required_assessments p \<and> v \<noteq> None \<and> v \<noteq> Some []
                  then [assessment_invitation_email (p\<lparr>sp_required_assessments := v, sp_updated_at := Some now\<rparr>)]
                  else [])\<rparr>)"
proof -
  let ?new = "p\<lparr>sp_required_assessments := v, sp_updated_at := Some now\<rparr>"
  let ?s1 = "s\<lparr>selection_processes := map (\<lambda>r. if sp_id r = pid then ?new else r) (selection_processes s)\<rparr>"
  have ins: "insert_email_notification Owner (assessment_invitation_email ?new) ?s1
      = Inr (?s1\<lparr>email_notifications := email_notifications s @ [assessment_invitation_email ?new]\<rparr>)"
    using fk
    by (auto simp: insert_email_notification_def policy_admits_owner assessment_invitation_email_def
        email_notifications_status_check_def email_notifications_type_check_def is_profile_def
        split: option.splits)
  have trig: "create_assessment_invitation Owner p ?new ?s1 =
      Inr (?s1\<lparr>email_notifications := email_notifications s @
          (if v \<noteq> sp_required_assessments p \<and> v \<noteq> None \<and> v \<noteq> Some []
           then [assessment_invitation_email ?new] else [])\<rparr>)"
    using ins
    by (auto simp: create_assessment_invitation_def is_true_is_distinct_from is_true_sql_ne)
  show ?thesis
    using st trig
    by (simp add: update_selection_process_def policy_admits_owner f Let_def
        selection_processes_status_check_def sp_assign_def)
qed

lemma create_assessment_invitation_cases:
  "create_assessment_invitation act old new s =
     (if sp_required_assessments new \<noteq> sp_required_assessments old
         \<and> sp_required_assessments new \<noteq> None \<and> sp_required_assessments new \<noteq> Some []
      then insert_email_notification act (assessment_invitation_email new) s else Inr s)"
  by (auto simp: create_assessment_invitation_def is_true_is_distinct_from is_true_sql_ne)

lemma insert_email_notification_result:
  "insert_email_notification act e s = Inr s' \<Longrightarrow> s' = s\<lparr>email_notifications := email_notifications s @ [e]\<rparr>"
  by (cases act)
     (auto simp: insert_email_notification_def policy_admits_owner policy_admits_rrhh_policies
        split: if_splits option.splits)

lemma owner_update_required_assessments_unfold:
  assumes f: "find (\<lambda>p. sp_id p = pid) (selection_processes s) = Some p"
  shows "update_selection_process now Owner pid \<lparr>set_status = None, set_required_assessments = Some v\<rparr> s =
     (if \<not> selection_processes_status_check p then Inl (Check_violation ''selection_processes_status_check'')
      else create_assessment_invitation Owner p (p\<lparr>sp_required_assessments := v, sp_updated_at := Some now\<rparr>)
             (s\<lparr>selection_processes :=
                  map (\<lambda>r. if sp_id r = pid then p\<lparr>sp_required_assessments := v, sp_updated_at := Some now\<rparr> else r)
                    (selection_processes s)\<rparr>))"
  by (simp add: update_selection_process_def policy_admits_owner f Let_def sp_assign_def
      selection_processes_status_check_def split: sum.splits)

text \<open>An update of \<open>required_assessments\<close> alone never touches \<open>notifications\<close>, and what it
  appends to \<open>email_notifications\<close> is decided by the old and the new list.\<close>

lemma update_required_assessments_effect:
  assumes ok: "update_selection_process now act pid \<lparr>set_status = None, set_required_assessments = Some v\<rparr> s = Inr s'"
    and f: "find (\<lambda>p. sp_id p = pid) (selection_processes s) = Some p"
  shows "notifications s' = notifications s
       \<and> email_notifications s' = email_notifications s @
            (if v \<noteq> sp_required_assessments p \<and> v \<noteq> None \<and> v \<noteq> Some []
             then [assessment_invitation_email (p\<lparr>sp_required_assessments := v, sp_updated_at := Some now\<rparr>)]
             else [])"
proof (cases act)
  case (Authenticated uid)
  with ok show ?thesis by (simp add: authenticated_statements_rejected)
next
  case Owner
  let ?new = "p\<lparr>sp_required_assessments := v, sp_updated_at := Some now\<rparr>"
  let ?s1 = "s\<lparr>selection_processes := map (\<lambda>r. if sp_id r = pid then ?new else r) (selection_processes s)\<rparr>"
  let ?e = "assessment_invitation_email ?new"
  from ok Owner have tr: "create_assessment_invitation Owner p ?new ?s1 = Inr s'"
    by (simp add: owner_update_required_assessments_unfold [OF f] split: if_splits)
  show ?thesis
  proof (cases "v \<noteq> sp_required_assessments p \<and> v \<noteq> None \<and> v \<noteq> Some []")
    case False
    with tr have "s' = ?s1"
      by (auto simp: create_assessment_invitation_cases)
    with False show ?thesis by auto
  next
    case True
    with tr have "insert_email_notification Owner ?e ?s1 = Inr s'"
      by (simp add: create_assessment_invitation_cases)
    from insert_email_notification_result [OF this]
    have "s' = ?s1\<lparr>email_notifications := email_notifications s @ [?e]\<rparr>" by simp
    with True show ?thesis by auto
  qed
qed

text \<open>
  C6, as stated, fails. The rrhh identity 1 changes the \<open>required_assessments\<close> of process 30
  from the empty list to \<open>[90]\<close>: the update raises 42P17 and creates nothing. The same update
  made without row security succeeds and appends one row to \<open>email_notifications\<close>; it appends
  no row to \<open>notifications\<close>, which \<open>create_assessment_invitation\<close> never writes.
\<close>

theorem assessment_update_appends_no_notification:
  "update_selection_process 1000 (Authenticated 1) 30
     \<lparr>set_status = None, set_required_assessments = Some (Some [90])\<rparr> sample_db
     = Inl (Infinite_recursion ''profiles'')
   \<and> update_selection_process 1000 Owner 30
     \<lparr>set_status = None, set_required_assessments = Some (Some [90])\<rparr> sample_db
     = Inr (sample_db
         \<lparr>selection_processes :=
            [\<lparr>sp_id = 30, sp_job_offer_id = Some 11, sp_candidate_id = Some 2, sp_status = ''pending'',
              sp_required_assessments = Some [90], sp_updated_at = Some 1000\<rparr>],
          email_notifications :=
            [\<lparr>e_type = ''assessment_invitation'', e_recipient_id = Some 2,
              e_subject = ''Evaluaci'' @ [CHR 0xC3, CHR 0xB3] @ ''n de habilidades pendiente'',
              e_content = ''Se te ha asignado una nueva evaluaci'' @ [CHR 0xC3, CHR 0xB3]
                @ ''n de habilidades. Por favor, ingresa a la plataforma para completarla.'',
              e_status = ''pending''\<rparr>]\<rparr>)
   \<and> notifications sample_db = []"
proof (intro conjI)
  show "update_selection_process 1000 (Authenticated 1) 30
     \<lparr>set_status = None, set_required_assessments = Some (Some [90])\<rparr> sample_db
     = Inl (Infinite_recursion ''profiles'')"
    by (simp add: update_selection_process_def policy_admits_def
        rrhh_can_manage_selection_processes_def exists_rrhh_profile_def
        expand_profiles_policies.simps)
  show "update_selection_process 1000 Owner 30
     \<lparr>set_status = None, set_required_assessments = Some (Some [90])\<rparr> sample_db
     = Inr (sample_db
         \<lparr>selection_processes :=
            [\<lparr>sp_id = 30, sp_job_offer_id = Some 11, sp_candidate_id = Some 2, sp_status = ''pending'',
              sp_required_assessments = Some [90], sp_updated_at = Some 1000\<rparr>],
          email_notifications :=
            [\<lparr>e_type = ''assessment_invitation'', e_recipient_id = Some 2,
              e_subject = ''Evaluaci'' @ [CHR 0xC3, CHR 0xB3] @ ''n de habilidades pendiente'',
              e_content = ''Se te ha asignado una nueva evaluaci'' @ [CHR 0xC3, CHR 0xB3]
                @ ''n de habilidades. Por favor, ingresa a la plataforma para completarla.'',
              e_status = ''pending''\<rparr>]\<rparr>)"
    by (simp add: update_selection_process_def policy_admits_owner sample_db_def sp_assign_def
        selection_processes_status_check_def create_assessment_invitation_def is_distinct_from_def
        sql_ne_def insert_email_notification_def assessment_invitation_email_def
        email_notifications_status_check_def email_notifications_type_check_def is_profile_def
        o_acute_def Let_def)
  show "notifications sample_db = []" by (simp add: sample_db_def)
qed

text \<open>
  C6, amended. Whenever an update of \<open>required_assessments\<close> on a stored process is carried
  out: from the empty list to \<open>[a1]\<close> it appends exactly one row to \<open>email_notifications\<close>, of
  type \<open>'assessment_invitation'\<close>, addressed to the candidate of the process, with the fixed
  subject and body; from \<open>[a1]\<close> to \<open>[a1, a2]\<close> it appends another; from \<open>[a1]\<close> to the empty
  list it appends none. In all three \<open>notifications\<close> is unchanged.
\<close>

theorem assessment_invitation_is_an_email:
  assumes f: "find (\<lambda>p. sp_id p = pid) (selection_processes s) = Some p"
  shows "(sp_required_assessments p = Some []
          \<and> update_selection_process now act pid
               \<lparr>set_status = None, set_required_assessments = Some (Some [a1])\<rparr> s = Inr s1
          \<longrightarrow> email_notifications s1 = email_notifications s @
                [\<lparr>e_type = ''assessment_invitation'', e_recipient_id = sp_candidate_id p,
                  e_subject = ''Evaluaci'' @ [CHR 0xC3, CHR 0xB3] @ ''n de habilidades pendiente'',
                  e_content = ''Se te ha asignado una nueva evaluaci'' @ [CHR 0xC3, CHR 0xB3]
                    @ ''n de habilidades. Por favor, ingresa a la plataforma para completarla.'',
                  e_status = ''pending''\<rparr>]
              \<and> notifications s1 = notifications s)
       \<and> (sp_required_assessments p = Some [a1]
          \<and> update_selection_process now act pid
               \<lparr>set_status = None, set_required_assessments = Some (Some [a1, a2])\<rparr> s = Inr s2
          \<longrightarrow> email_notifications s2 = email_notifications s @
                [\<lparr>e_type = ''assessment_invitation'', e_recipient_id = sp_candidate_id p,
                  e_subject = ''Evaluaci'' @ [CHR 0xC3, CHR 0xB3] @ ''n de habilidades pendiente'',
                  e_content = ''Se te ha asignado una nueva evaluaci'' @ [CHR 0xC3, CHR 0xB3]
                    @ ''n de habilidades. Por favor, ingresa a la plataforma para completarla.'',
                  e_status = ''pending''\<rparr>]
              \<and> notifications s2 = notifications s)
       \<and> (sp_required_assessments p = Some [a1]
          \<and> update_selection_process now act pid
               \<lparr>set_status = None, set_required_assessments = Some (Some [])\<rparr> s = Inr s3
          \<longrightarrow> email_notifications s3 = email_notifications s
              \<and> notifications s3 = notifications s)"
proof (intro conjI impI)
  assume h: "sp_required_assessments p = Some []
          \<and> update_selection_process now act pid
               \<lparr>set_status = None, set_required_assessments = Some (Some [a1])\<rparr> s = Inr s1"
  from update_required_assessments_effect [OF conjunct2 [OF h] f] conjunct1 [OF h]
  show "email_notifications s1 = email_notifications s @
                [\<lparr>e_type = ''assessment_invitation'', e_recipient_id = sp_candidate_id p,
                  e_subject = ''Evaluaci'' @ [CHR 0xC3, CHR 0xB3] @ ''n de habilidades pendiente'',
                  e_content = ''Se te ha asignado una nueva evaluaci'' @ [CHR 0xC3, CHR 0xB3]
                    @ ''n de habilidades. Por favor, ingresa a la plataforma para completarla.'',
                  e_status = ''pending''\<rparr>]"
    and "notifications s1 = notifications s"
    by (simp_all add: assessment_invitation_email_def o_acute_def)
next
  assume h: "sp_required_assessments p = Some [a1]
          \<and> update_selection_process now act pid
               \<lparr>set_status = None, set_required_assessments = Some (Some [a1, a2])\<rparr> s = Inr s2"
  from update_required_assessments_effect [OF conjunct2 [OF h] f] conjunct1 [OF h]
  show "email_notifications s2 = email_notifications s @
                [\<lparr>e_type = ''assessment_invitation'', e_recipient_id = sp_candidate_id p,
                  e_subject = ''Evaluaci'' @ [CHR 0xC3, CHR 0xB3] @ ''n de habilidades pendiente'',
                  e_content = ''Se te ha asignado una nueva evaluaci'' @ [CHR 0xC3, CHR 0xB3]
                    @ ''n de habilidades. Por favor, ingresa a la plataforma para completarla.'',
                  e_status = ''pending''\<rparr>]"
    and "notifications s2 = notifications s"
    by (simp_all add: assessment_invitation_email_def o_acute_def)
next
  assume h: "sp_required_assessments p = Some [a1]
          \<and> update_selection_process now act pid
               \<lparr>set_status = None, set_required_assessments = Some (Some [])\<rparr> s = Inr s3"
  from update_required_assessments_effect [OF conjunct2 [OF h] f] conjunct1 [OF h]
  show "email_notifications s3 = email_notifications s" and "notifications s3 = notifications s"
    by simp_all
qed

theorem assessment_invitation_is_an_email_witness:
  "(\<exists>s1. update_selection_process 1000 Owner 30
            \<lparr>set_status = None, set_required_assessments = Some (Some [90])\<rparr> sample_db = Inr s1
        \<and> map e_type (email_notifications s1) = [''assessment_invitation'']
        \<and> map e_recipient_id (email_notifications s1) = [Some 2]
        \<and> map e_subject (email_notifications s1)
            = [''Evaluaci'' @ [CHR 0xC3, CHR 0xB3] @ ''n de habilidades pendiente'']
        \<and> notifications s1 = [])
   \<and> (\<exists>s2. update_selection_process 1000 Owner 30
            \<lparr>set_status = None, set_required_assessments = Some (Some [90, 91])\<rparr>
            (sample_db\<lparr>selection_processes :=
               [\<lparr>sp_id = 30, sp_job_offer_id = Some 11, sp_candidate_id = Some 2, sp_status = ''pending'',
                 sp_required_assessments = Some [90], sp_updated_at = None\<rparr>]\<rparr>) = Inr s2
        \<and> map e_type (email_notifications s2) = [''assessment_invitation'']
        \<and> notifications s2 = [])
   \<and> (\<exists>s3. update_selection_process 1000 Owner 30
            \<lparr>set_status = None, set_required_assessments = Some (Some [])\<rparr>
            (sample_db\<lparr>selection_processes :=
               [\<lparr>sp_id = 30, sp_job_offer_id = Some 11, sp_candidate_id = Some 2, sp_status = ''pending'',
                 sp_required_assessments = Some [90], sp_updated_at = None\<rparr>]\<rparr>) = Inr s3
        \<and> email_notifications s3 = []
        \<and> notifications s3 = [])"
proof -
  let ?p0 = "\<lparr>sp_id = 30, sp_job_offer_id = Some 11, sp_candidate_id = Some 2, sp_status = ''pending'',
               sp_required_assessments = Some [], sp_updated_at = None\<rparr>"
  let ?p1 = "\<lparr>sp_id = 30, sp_job_offer_id = Some 11, sp_candidate_id = Some 2, sp_status = ''pending'',
               sp_required_assessments = Some [90], sp_updated_at = None\<rparr>"
  let ?d1 = "sample_db\<lparr>selection_processes := [?p1]\<rparr>"
  have f0: "find (\<lambda>p. sp_id p = 30) (selection_processes sample_db) = Some ?p0"
    by (simp add: sample_db_def)
  have f1: "find (\<lambda>p. sp_id p = 30) (selection_processes ?d1) = Some ?p1"
    by simp
  have st0: "selection_processes_status_check ?p0" and st1: "selection_processes_status_check ?p1"
    by (simp_all add: selection_processes_status_check_def)
  have fk0: "case sp_candidate_id ?p0 of None \<Rightarrow> True | Some c \<Rightarrow> is_profile sample_db c"
    by (simp add: sample_db_def is_profile_def)
  have fk1: "case sp_candidate_id ?p1 of None \<Rightarrow> True | Some c \<Rightarrow> is_profile ?d1 c"
    by (simp add: sample_db_def is_profile_def)
  have e0: "email_notifications sample_db = []" "notifications sample_db = []"
    by (simp_all add: sample_db_def)
  have e1: "email_notifications ?d1 = []" "notifications ?d1 = []"
    by (simp_all add: sample_db_def)
  from owner_update_required_assessments [OF f0 st0 fk0, of 1000 "Some [90]"]
  obtain s1 where u1: "update_selection_process 1000 Owner 30
      \<lparr>set_status = None, set_required_assessments = Some (Some [90])\<rparr> sample_db = Inr s1"
    by blast
  from owner_update_required_assessments [OF f1 st1 fk1, of 1000 "Some [90, 91]"]
  obtain s2 where u2: "update_selection_process 1000 Owner 30
      \<lparr>set_status = None, set_required_assessments = Some (Some [90, 91])\<rparr> ?d1 = Inr s2"
    by blast
  from owner_update_required_assessments [OF f1 st1 fk1, of 1000 "Some []"]
  obtain s3 where u3: "update_selection_process 1000 Owner 30
      \<lparr>set_status = None, set_required_assessments = Some (Some [])\<rparr> ?d1 = Inr s3"
    by blast
  from assessment_invitation_is_an_email [OF f0, where now=1000 and act=Owner and ?a1.0=90 and ?s1.0=s1] u1
  have a: "map e_type (email_notifications s1) = [''assessment_invitation'']
        \<and> map e_recipient_id (email_notifications s1) = [Some 2]
        \<and> map e_subject (email_notifications s1)
            = [''Evaluaci'' @ [CHR 0xC3, CHR 0xB3] @ ''n de habilidades pendiente'']
        \<and> notifications s1 = []"
    by (simp add: e0)
  from assessment_invitation_is_an_email [OF f1, where now=1000 and act=Owner and ?a1.0=90 and ?a2.0=91 and ?s2.0=s2 and ?s3.0=s3] u2 u3
  have b: "map e_type (email_notifications s2) = [''assessment_invitation''] \<and> notifications s2 = []"
    and c: "email_notifications s3 = [] \<and> notifications s3 = []"
    by (simp_all add: e1)
  show ?thesis
  proof (intro conjI)
    from u1 a show "\<exists>s1. update_selection_process 1000 Owner 30
            \<lparr>set_status = None, set_required_assessments = Some (Some [90])\<rparr> sample_db = Inr s1
        \<and> map e_type (email_notifications s1) = [''assessment_invitation'']
        \<and> map e_recipient_id (email_notifications s1) = [Some 2]
        \<and> map e_subject (email_notifications s1)
            = [''Evaluaci'' @ [CHR 0xC3, CHR 0xB3] @ ''n de habilidades pendiente'']
        \<and> notifications s1 = []"
      by (intro exI [of _ s1]) simp
    from u2 b show "\<exists>s2. update_selection_process 1000 Owner 30
            \<lparr>set_status = None, set_required_assessments = Some (Some [90, 91])\<rparr> ?d1 = Inr s2
        \<and> map e_type (email_notifications s2) = [''assessment_invitation'']
        \<and> notifications s2 = []"
      by (intro exI [of _ s2]) simp
    from u3 c show "\<exists>s3. update_selection_process 1000 Owner 30
            \<lparr>set_status = None, set_required_assessments = Some (Some [])\<rparr> ?d1 = Inr s3
        \<and> email_notifications s3 = []
        \<and> notifications s3 = []"
      by (intro exI [of _ s3]) simp
  qed
qed

section \<open>Applications\<close>

lemma notifications_select_iff:
  "notifications_select_policy v n = (n_user_id n = Some v)"
  by (auto simp: notifications_select_policy_def users_can_read_their_notifications_def is_true_sql_eq)

text \<open>With row security out of the way the trigger does what its name says: one notification
  for the owner of the application, carrying the new \<open>estado\<close>, which the owner alone can
  select.\<close>

lemma owner_application_accepted_notifies_applicant:
  assumes f: "find (\<lambda>r. a_id r = aid) (applications s) = Some a"
    and es: "a_estado a = Some ''pendiente''"
    and us: "a_user_id a = Some u"
    and fk: "is_profile s u"
  shows "\<exists>n. update_application_estado Owner aid (Some ''aceptada'') s =
            Inr (s\<lparr>applications :=
                      map (\<lambda>r. if a_id r = aid then a\<lparr>a_estado := Some ''aceptada''\<rparr> else r) (applications s),
                    notifications := notifications s @ [n]\<rparr>)
          \<and> n_type n = ''application_status''
          \<and> n_user_id n = Some u
          \<and> n_content n = Some ((''Tu postulaci'' @ o_acute @ ''n ha sido '') @ ''aceptada'')
          \<and> (\<forall>v. notifications_select_policy v n = (v = u))"
proof -
  let ?new = "a\<lparr>a_estado := Some ''aceptada''\<rparr>"
  let ?s1 = "s\<lparr>applications := map (\<lambda>r. if a_id r = aid then ?new else r) (applications s)\<rparr>"
  let ?n = "\<lparr>n_user_id = Some u, n_type = ''application_status'',
             n_title = ''Estado de postulaci'' @ o_acute @ ''n actualizado'',
             n_content = Some ((''Tu postulaci'' @ o_acute @ ''n ha sido '') @ ''aceptada''),
             n_read = Some False, n_related_id = a_job_offer_id a\<rparr>"
  have ins: "insert_notification Owner ?n ?s1 = Inr (?s1\<lparr>notifications := notifications s @ [?n]\<rparr>)"
    using fk
    by (simp add: insert_notification_def policy_admits_owner notifications_type_check_def is_profile_def)
  have trig: "create_application_notification Owner a ?new ?s1 = Inr (?s1\<lparr>notifications := notifications s @ [?n]\<rparr>)"
    using ins es us
    by (simp add: create_application_notification_def is_true_sql_ne sql_concat_def)
  have upd: "update_application_estado Owner aid (Some ''aceptada'') s = Inr (?s1\<lparr>notifications := notifications s @ [?n]\<rparr>)"
    using trig
    by (simp add: update_application_estado_def policy_admits_owner f Let_def applications_estado_check_def)
  have sel: "\<forall>v. notifications_select_policy v ?n = (v = u)"
    by (auto simp: notifications_select_iff)
  from upd sel show ?thesis
    by (intro exI [of _ ?n]) simp
qed

text \<open>
  C7. The claim expects the update of an application from \<open>'pendiente'\<close> to \<open>'aceptada'\<close> by an
  rrhh identity to insert one notification for the applicant. On the code the update by the
  rrhh identity 1 of application 20 raises 42P17 when "RRHH can manage applications" is
  expanded: the \<open>estado\<close> is not changed and no notification is stored.
\<close>

theorem application_update_by_rrhh_rejected:
  "has_role sample_db 1 ''rrhh''
   \<and> update_application_estado (Authenticated 1) 20 (Some ''aceptada'') sample_db
       = Inl (Infinite_recursion ''profiles'')"
proof (intro conjI)
  show "has_role sample_db 1 ''rrhh''" by (simp add: sample_db_def has_role_def)
  show "update_application_estado (Authenticated 1) 20 (Some ''aceptada'') sample_db
       = Inl (Infinite_recursion ''profiles'')"
    by (simp add: update_application_estado_def policy_admits_def rrhh_can_manage_applications_def
        exists_rrhh_profile_def expand_profiles_policies.simps)
qed

text \<open>The insert policy of the applicants reads \<open>user_id\<close> and nothing else of the row.\<close>

lemma users_can_create_applications_iff:
  "is_true (users_can_create_applications uid a) = (a_user_id a = Some uid)"
  by (auto simp: users_can_create_applications_def is_true_sql_eq)

text \<open>
  C10. The claim expects the insert of an application with the identity's own \<open>user_id\<close> to
  succeed, also on a closed offer. On the code the insert by the candidate 2 raises 42P17, on
  the closed offer 10 as on the open offer 11: "RRHH can manage applications" is FOR ALL, so
  its subquery on \<open>profiles\<close> is part of the check of every insert. Nothing else stands in the
  way: the same insert on the closed offer succeeds without row security.
\<close>

theorem application_insert_rejected:
  "insert_application (Authenticated 2)
     \<lparr>a_id = 21, a_job_offer_id = Some 10, a_user_id = Some 2, a_estado = Some ''pendiente''\<rparr> sample_db
     = Inl (Infinite_recursion ''profiles'')
   \<and> insert_application (Authenticated 2)
     \<lparr>a_id = 21, a_job_offer_id = Some 11, a_user_id = Some 2, a_estado = Some ''pendiente''\<rparr> sample_db
     = Inl (Infinite_recursion ''profiles'')
   \<and> insert_application Owner
     \<lparr>a_id = 21, a_job_offer_id = Some 10, a_user_id = Some 2, a_estado = Some ''pendiente''\<rparr> sample_db
     = Inr (sample_db\<lparr>applications := applications sample_db @
         [\<lparr>a_id = 21, a_job_offer_id = Some 10, a_user_id = Some 2, a_estado = Some ''pendiente''\<rparr>]\<rparr>)"
proof (intro conjI)
  show "insert_application (Authenticated 2)
     \<lparr>a_id = 21, a_job_offer_id = Some 10, a_user_id = Some 2, a_estado = Some ''pendiente''\<rparr> sample_db
     = Inl (Infinite_recursion ''profiles'')"
    by (simp add: insert_application_def policy_admits_def rrhh_can_manage_applications_def
        exists_rrhh_profile_def expand_profiles_policies.simps)
  show "insert_application (Authenticated 2)
     \<lparr>a_id = 21, a_job_offer_id = Some 11, a_user_id = Some 2, a_estado = Some ''pendiente''\<rparr> sample_db
     = Inl (Infinite_recursion ''profiles'')"
    by (simp add: insert_application_def policy_admits_def rrhh_can_manage_applications_def
        exists_rrhh_profile_def expand_profiles_policies.simps)
  show "insert_application Owner
     \<lparr>a_id = 21, a_job_offer_id = Some 10, a_user_id = Some 2, a_estado = Some ''pendiente''\<rparr> sample_db
     = Inr (sample_db\<lparr>applications := applications sample_db @
         [\<lparr>a_id = 21, a_job_offer_id = Some 10, a_user_id = Some 2, a_estado = Some ''pendiente''\<rparr>]\<rparr>)"
    by (simp add: insert_application_def policy_admits_owner applications_estado_check_def
        is_profile_def sample_db_def)
qed

section \<open>Deleting an evaluation template\<close>

text \<open>A delete without row security: rejected while a candidate evaluation references the
  template, carried out with the cascade otherwise.\<close>

lemma owner_delete_evaluation_template:
  assumes ex: "list_ex (\<lambda>t. et_id t = tid) (evaluation_templates s)"
  shows "delete_evaluation_template Owner tid s =
     (if list_ex (\<lambda>e. ce_template_id e = Some tid) (candidate_evaluations s)
      then Inl (Foreign_key_violation ''candidate_evaluations_template_id_fkey'')
      else Inr (s\<lparr>evaluation_templates := filter (\<lambda>t. et_id t \<noteq> tid) (evaluation_templates s),
                 evaluation_criteria := filter (\<lambda>c. ec_template_id c \<noteq> Some tid) (evaluation_criteria s)\<rparr>))"
proof -
  from ex obtain t where t: "find (\<lambda>t. et_id t = tid) (evaluation_templates s) = Some t"
    by (cases "find (\<lambda>t. et_id t = tid) (evaluation_templates s)")
       (auto simp: find_None_iff list_ex_iff)
  show ?thesis
    by (simp add: delete_evaluation_template_def policy_admits_owner t)
qed

text \<open>
  C9. Whenever a delete of the template \<open>tid\<close> is carried out (the statement succeeds and the
  template, stored before, is gone after), it has removed exactly the criteria whose
  \<open>template_id\<close> is \<open>tid\<close>: the criteria of every other template, and those without a template,
  stay as they were, in their order.
\<close>

theorem template_delete_cascades_to_its_criteria:
  assumes d: "delete_evaluation_template act tid s = Inr s'"
    and ex: "list_ex (\<lambda>t. et_id t = tid) (evaluation_templates s)"
    and gone: "\<not> list_ex (\<lambda>t. et_id t = tid) (evaluation_templates s')"
  shows "evaluation_criteria s' = filter (\<lambda>c. ec_template_id c \<noteq> Some tid) (evaluation_criteria s)"
proof (cases act)
  case (Authenticated uid)
  with d show ?thesis by (simp add: authenticated_statements_rejected)
next
  case Owner
  with d show ?thesis
    by (auto simp: owner_delete_evaluation_template [OF ex] split: if_splits)
qed

theorem template_delete_cascades_to_its_criteria_witness:
  "\<exists>s'. delete_evaluation_template Owner 50 sample_db = Inr s'
      \<and> map et_id (evaluation_templates sample_db) = [50, 51]
      \<and> map et_id (evaluation_templates s') = [51]
      \<and> map ec_id (evaluation_criteria sample_db) = [60, 61, 62, 63]
      \<and> map ec_id (evaluation_criteria s') = [62, 63]"
proof -
  have ex: "list_ex (\<lambda>t. et_id t = 50) (evaluation_templates sample_db)" by (simp add: sample_db_def)
  have nr: "\<not> list_ex (\<lambda>e. ce_template_id e = Some 50) (candidate_evaluations sample_db)"
    by (simp add: sample_db_def)
  define s' where "s' = sample_db
      \<lparr>evaluation_templates := filter (\<lambda>t. et_id t \<noteq> 50) (evaluation_templates sample_db),
        evaluation_criteria := filter (\<lambda>c. ec_template_id c \<noteq> Some 50) (evaluation_criteria sample_db)\<rparr>"
  have d: "delete_evaluation_template Owner 50 sample_db = Inr s'"
    using nr by (simp add: owner_delete_evaluation_template [OF ex] s'_def)
  have t0: "map et_id (evaluation_templates sample_db) = [50, 51]" by (simp add: sample_db_def)
  have t: "map et_id (evaluation_templates s') = [51]" by (simp add: s'_def sample_db_def)
  have gone: "\<not> list_ex (\<lambda>t. et_id t = 50) (evaluation_templates s')"
    by (simp add: s'_def sample_db_def)
  have c0: "map ec_id (evaluation_criteria sample_db) = [60, 61, 62, 63]" by (simp add: sample_db_def)
  from template_delete_cascades_to_its_criteria [OF d ex gone]
  have c: "map ec_id (evaluation_criteria s') = [62, 63]" by (simp add: sample_db_def)
  from d t0 t c0 c show ?thesis by (intro exI [of _ s']) simp
qed

end
